theory Spec2Isabelle
  imports Complex_Main
begin

section \<open>JavaScript numbers\<close>

text \<open>
  Every numeric value of \<^verbatim>\<open>portfolio.js\<close> is an ECMAScript Number, that is an IEEE 754
  binary64 value. A finite nonzero value and \<open>+0\<close> are \<open>Fin x\<close> with \<open>x\<close> the real number
  denoted; \<open>-0\<close>, the two infinities and NaN are constructors of their own. The results of
  the arithmetic operations are rounded to the nearest binary64 value, ties to even
  (\<open>round64\<close>), so that the rounding of the source is part of the model.
\<close>

datatype jsnum = Fin real | NZero | PInf | NInf | NaN

definition pow2 :: "int \<Rightarrow> real" where
  "pow2 k = (if 0 \<le> k then 2 ^ nat k else 1 / 2 ^ nat (- k))"

definition ilog2 :: "real \<Rightarrow> int" where
  "ilog2 x = \<lfloor>log 2 \<bar>x\<bar>\<rfloor>"

text \<open>Rounding a real to the nearest integer, a tie going to the even neighbour.\<close>

definition rne :: "real \<Rightarrow> int" where
  "rne q = (let f = \<lfloor>q\<rfloor>; r = q - of_int f in
     if r < 1 / 2 then f else if 1 / 2 < r then f + 1 else if even f then f else f + 1)"

text \<open>
  \<open>round64 x\<close> is the binary64 value nearest to the real \<open>x\<close>: 53 significant bits, the
  exponent of the leading bit not below \<open>-1022\<close> (below it the spacing stays \<open>2^-1074\<close>, the
  subnormal range), overflow to an infinity from \<open>2^1024\<close> on, and a nonzero real that rounds
  to zero keeps its sign. An exact zero is \<open>+0\<close>; the operations below give the zero results
  of products and quotients their sign themselves.
\<close>

definition round64 :: "real \<Rightarrow> jsnum" where
  "round64 x = (if x = 0 then Fin 0 else
     let u = pow2 (max (ilog2 x) (- 1022) - 52);
         y = of_int (rne (x / u)) * u
     in if 2 ^ 1024 \<le> \<bar>y\<bar> then (if 0 < x then PInf else NInf)
        else if y = 0 then (if x < 0 then NZero else Fin 0)
        else Fin y)"

text \<open>A numeric literal of the source denotes the binary64 value nearest to its decimal.\<close>

definition num :: "real \<Rightarrow> jsnum" where
  "num x = round64 x"

text \<open>The values a JavaScript variable can hold: the reals that rounding leaves alone.\<close>

fun is_double :: "jsnum \<Rightarrow> bool" where
  "is_double (Fin x) = (round64 x = Fin x)"
| "is_double _ = True"

fun is_nan :: "jsnum \<Rightarrow> bool" where
  "is_nan NaN = True"
| "is_nan _ = False"

fun is_inf :: "jsnum \<Rightarrow> bool" where
  "is_inf PInf = True"
| "is_inf NInf = True"
| "is_inf _ = False"

fun is_finite :: "jsnum \<Rightarrow> bool" where
  "is_finite (Fin x) = True"
| "is_finite NZero = True"
| "is_finite _ = False"

fun is_zero :: "jsnum \<Rightarrow> bool" where
  "is_zero (Fin x) = (x = 0)"
| "is_zero NZero = True"
| "is_zero _ = False"

text \<open>The sign bit (of a value that is not NaN).\<close>

fun sign_neg :: "jsnum \<Rightarrow> bool" where
  "sign_neg (Fin x) = (x < 0)"
| "sign_neg NZero = True"
| "sign_neg NInf = True"
| "sign_neg _ = False"

text \<open>The real number a finite value denotes.\<close>

fun rv :: "jsnum \<Rightarrow> real" where
  "rv (Fin x) = x"
| "rv _ = 0"

definition mk_inf :: "bool \<Rightarrow> jsnum" where
  "mk_inf neg = (if neg then NInf else PInf)"

definition mk_zero :: "bool \<Rightarrow> jsnum" where
  "mk_zero neg = (if neg then NZero else Fin 0)"

fun js_neg :: "jsnum \<Rightarrow> jsnum" where
  "js_neg (Fin x) = (if x = 0 then NZero else Fin (- x))"
| "js_neg NZero = Fin 0"
| "js_neg PInf = NInf"
| "js_neg NInf = PInf"
| "js_neg NaN = NaN"

text \<open>\<^verbatim>\<open>a + b\<close> on Numbers (ECMAScript Number::add).\<close>

definition js_add :: "jsnum \<Rightarrow> jsnum \<Rightarrow> jsnum" where
  "js_add a b =
     (if is_nan a \<or> is_nan b then NaN
      else if is_inf a \<and> is_inf b then (if sign_neg a = sign_neg b then a else NaN)
      else if is_inf a then a
      else if is_inf b then b
      else if is_zero a \<and> is_zero b then mk_zero (sign_neg a \<and> sign_neg b)
      else round64 (rv a + rv b))"

text \<open>\<^verbatim>\<open>a - b\<close> is \<^verbatim>\<open>a + (-b)\<close> (Number::subtract).\<close>

definition js_sub :: "jsnum \<Rightarrow> jsnum \<Rightarrow> jsnum" where
  "js_sub a b = js_add a (js_neg b)"

text \<open>\<^verbatim>\<open>a * b\<close> (Number::multiply).\<close>

definition js_mul :: "jsnum \<Rightarrow> jsnum \<Rightarrow> jsnum" where
  "js_mul a b =
     (if is_nan a \<or> is_nan b then NaN
      else if (is_inf a \<and> is_zero b) \<or> (is_zero a \<and> is_inf b) then NaN
      else if is_inf a \<or> is_inf b then mk_inf (sign_neg a \<noteq> sign_neg b)
      else if is_zero a \<or> is_zero b then mk_zero (sign_neg a \<noteq> sign_neg b)
      else round64 (rv a * rv b))"

text \<open>\<^verbatim>\<open>a / b\<close> (Number::divide): a division by zero raises nothing.\<close>

definition js_div :: "jsnum \<Rightarrow> jsnum \<Rightarrow> jsnum" where
  "js_div a b =
     (if is_nan a \<or> is_nan b then NaN
      else if (is_inf a \<and> is_inf b) \<or> (is_zero a \<and> is_zero b) then NaN
      else if is_inf a \<or> is_zero b then mk_inf (sign_neg a \<noteq> sign_neg b)
      else if is_inf b \<or> is_zero a then mk_zero (sign_neg a \<noteq> sign_neg b)
      else round64 (rv a / rv b))"

text \<open>\<^verbatim>\<open>a < b\<close>, \<^verbatim>\<open>a > b\<close>, \<^verbatim>\<open>a <= b\<close> and \<^verbatim>\<open>a === b\<close>: false whenever an operand is NaN.\<close>

fun js_lt :: "jsnum \<Rightarrow> jsnum \<Rightarrow> bool" where
  "js_lt NaN _ = False"
| "js_lt _ NaN = False"
| "js_lt _ NInf = False"
| "js_lt NInf _ = True"
| "js_lt PInf _ = False"
| "js_lt _ PInf = True"
| "js_lt a b = (rv a < rv b)"

definition js_gt :: "jsnum \<Rightarrow> jsnum \<Rightarrow> bool" where
  "js_gt a b = js_lt b a"

definition js_le :: "jsnum \<Rightarrow> jsnum \<Rightarrow> bool" where
  "js_le a b = (\<not> is_nan a \<and> \<not> is_nan b \<and> \<not> js_lt b a)"

definition js_eq :: "jsnum \<Rightarrow> jsnum \<Rightarrow> bool" where
  "js_eq a b = (js_le a b \<and> js_le b a)"

text \<open>
  \<^verbatim>\<open>Math.pow(b, e)\<close> (Number::exponentiate), case by case in the order of the standard.
  In the last case, a finite nonzero base and a finite nonzero exponent, integral when the
  base is negative, the standard asks for an implementation-approximated value only, and
  engines differ from the correctly rounded power in the last digits. The model therefore
  takes the function of the engine as a parameter \<open>approx\<close>, from the real numbers of base
  and exponent to the Number returned, and every function that calls \<^verbatim>\<open>Math.pow\<close> passes
  it on. \<open>cr_pow\<close> is the correctly rounded power, one such function.
\<close>

definition odd_integer :: "real \<Rightarrow> bool" where
  "odd_integer y = (of_int \<lfloor>y\<rfloor> = y \<and> odd \<lfloor>y\<rfloor>)"

definition js_pow :: "(real \<Rightarrow> real \<Rightarrow> jsnum) \<Rightarrow> jsnum \<Rightarrow> jsnum \<Rightarrow> jsnum" where
  "js_pow approx b e =
     (if is_nan e then NaN
      else if is_zero e then Fin 1
      else if is_nan b then NaN
      else if b = PInf then (if sign_neg e then Fin 0 else PInf)
      else if b = NInf then
        (if sign_neg e then mk_zero (\<not> is_inf e \<and> odd_integer (rv e))
         else mk_inf (\<not> is_inf e \<and> odd_integer (rv e)))
      else if is_zero b then
        (if sign_neg e then mk_inf (sign_neg b \<and> \<not> is_inf e \<and> odd_integer (rv e))
         else mk_zero (sign_neg b \<and> \<not> is_inf e \<and> odd_integer (rv e)))
      else if is_inf e then
        (if \<bar>rv b\<bar> = 1 then NaN
         else if (1 < \<bar>rv b\<bar>) = (e = PInf) then PInf else Fin 0)
      else if rv b < 0 \<and> of_int \<lfloor>rv e\<rfloor> \<noteq> rv e then NaN
      else approx (rv b) (rv e))"

definition cr_pow :: "real \<Rightarrow> real \<Rightarrow> jsnum" where
  "cr_pow b e =
     (if b < 0 \<and> odd \<lfloor>e\<rfloor> then round64 (- (\<bar>b\<bar> powr e)) else round64 (\<bar>b\<bar> powr e))"

text \<open>\<^verbatim>\<open>Math.sqrt(a)\<close>: NaN below zero, a zero and \<open>+\<infinity>\<close> unchanged, correctly rounded.\<close>

definition js_sqrt :: "jsnum \<Rightarrow> jsnum" where
  "js_sqrt a =
     (if is_nan a then NaN
      else if is_zero a then a
      else if sign_neg a then NaN
      else if is_inf a then PInf
      else round64 (sqrt (rv a)))"


section \<open>The calculator state and the historical returns\<close>

text \<open>
  \<^verbatim>\<open>portfolioCalc\<close> is the one global object of the calculator. The input handlers assign
  to its first six fields; \<^verbatim>\<open>historicalReturns\<close> maps a year to the annual return of an
  asset, in percent.
\<close>

record historical =
  stocks :: "int \<rightharpoonup> jsnum"
  bonds :: "int \<rightharpoonup> jsnum"
  bitcoin :: "int \<rightharpoonup> jsnum"

record calc =
  portfolioSize :: jsnum
  stockAllocation :: jsnum
  bondAllocation :: jsnum
  btcAllocation :: jsnum
  timeHorizon :: jsnum
  startYear :: jsnum
  minPortfolioSize :: jsnum
  maxPortfolioSize :: jsnum
  minAllocation :: jsnum
  maxAllocation :: jsnum
  historicalReturns :: historical

definition stocks_table :: "(int \<times> jsnum) list" where
  "stocks_table =
     [(2014, num 13.7), (2015, num 1.4), (2016, num 12.0), (2017, num 21.8),
      (2018, num (- 4.4)), (2019, num 31.5), (2020, num 18.4), (2021, num 28.7),
      (2022, num (- 18.1)), (2023, num 26.3), (2024, num 25.0)]"

definition bonds_table :: "(int \<times> jsnum) list" where
  "bonds_table =
     [(2014, num 6.0), (2015, num 0.5), (2016, num 2.6), (2017, num 3.5),
      (2018, num 0.0), (2019, num 8.7), (2020, num 7.5), (2021, num (- 1.5)),
      (2022, num (- 13.0)), (2023, num 5.5), (2024, num 1.2)]"

definition bitcoin_table :: "(int \<times> jsnum) list" where
  "bitcoin_table =
     [(2014, num (- 58)), (2015, num 35), (2016, num 125), (2017, num 1318),
      (2018, num (- 73)), (2019, num 95), (2020, num 301), (2021, num 60),
      (2022, num (- 65)), (2023, num 155), (2024, num 120)]"

definition portfolioCalc :: calc where
  "portfolioCalc =
     \<lparr> portfolioSize = num 1000000, stockAllocation = num 60, bondAllocation = num 40,
       btcAllocation = num 0, timeHorizon = num 10, startYear = num 2014,
       minPortfolioSize = num 10000, maxPortfolioSize = num 1000000000,
       minAllocation = num 0, maxAllocation = num 100,
       historicalReturns =
         \<lparr> stocks = map_of stocks_table, bonds = map_of bonds_table,
           bitcoin = map_of bitcoin_table \<rparr> \<rparr>"

text \<open>
  \<^verbatim>\<open>table[year] ?? table[2024]\<close>: the entry of the year, and the entry of 2024 when the
  year has none. Were 2024 absent too, the operand would be \<^verbatim>\<open>undefined\<close>, which the
  arithmetic that follows turns into NaN.
\<close>

definition yearReturn :: "(int \<rightharpoonup> jsnum) \<Rightarrow> int \<Rightarrow> jsnum" where
  "yearReturn table year =
     (case table year of
        Some r \<Rightarrow> r
      | None \<Rightarrow> (case table 2024 of Some r \<Rightarrow> r | None \<Rightarrow> NaN))"

section \<open>The statistics helpers\<close>

text \<open>
  \<^verbatim>\<open>calculateStdDev(arr)\<close>. The test \<^verbatim>\<open>!arr\<close> is for a missing argument; an array, empty or
  not, passes it.
\<close>

definition calculateStdDev :: "(real \<Rightarrow> real \<Rightarrow> jsnum) \<Rightarrow> jsnum list \<Rightarrow> jsnum" where
  "calculateStdDev approx arr =
     (if length arr = 0 then num 0
      else
        let mean = js_div (foldl js_add (num 0) arr) (num (real (length arr)));
            squaredDiffs = map (\<lambda>x. js_pow approx (js_sub x mean) (num 2)) arr
        in js_sqrt (js_div (foldl js_add (num 0) squaredDiffs) (num (real (length arr)))))"

text \<open>
  The population standard deviation of the specification, on real numbers: the square
  root of the mean of the squared deviations from the mean, the divisor being the number
  \<open>N\<close> of elements.
\<close>

definition population_sd :: "real list \<Rightarrow> real" where
  "population_sd xs =
     (let N = real (length xs); mean = sum_list xs / N
      in sqrt (sum_list (map (\<lambda>x. (x - mean)\<^sup>2) xs) / N))"

text \<open>
  A run of \<^verbatim>\<open>calculateStdDev\<close> on finite values in which no operation rounds: the length,
  every partial sum, the mean, every deviation and its square, the variance and its square
  root are binary64 values (\<open>exact\<close>), and the engine returns the square of a nonzero
  deviation as it is.
\<close>

definition exact :: "real \<Rightarrow> bool" where
  "exact x = (round64 x = Fin x)"

fun exact_sums :: "real \<Rightarrow> real list \<Rightarrow> bool" where
  "exact_sums acc [] = True"
| "exact_sums acc (x # xs) = (exact (acc + x) \<and> exact_sums (acc + x) xs)"

definition no_rounding :: "(real \<Rightarrow> real \<Rightarrow> jsnum) \<Rightarrow> real list \<Rightarrow> bool" where
  "no_rounding approx xs =
     (let N = real (length xs);
          mean = sum_list xs / N;
          ds = map (\<lambda>x. x - mean) xs;
          qs = map (\<lambda>d. d\<^sup>2) ds;
          v = sum_list qs / N
      in exact N \<and> exact_sums 0 xs \<and> exact mean \<and> list_all exact ds \<and>
         list_all (\<lambda>d. d = 0 \<or> approx d 2 = Fin (d\<^sup>2)) ds \<and>
         exact_sums 0 qs \<and> exact v \<and> exact (sqrt v))"

text \<open>\<^verbatim>\<open>calculateVolatility(returns)\<close>: the same computation with no test of the length.\<close>

definition calculateVolatility :: "(real \<Rightarrow> real \<Rightarrow> jsnum) \<Rightarrow> jsnum list \<Rightarrow> jsnum" where
  "calculateVolatility approx rs =
     (let mean = js_div (foldl js_add (num 0) rs) (num (real (length rs)));
          squaredDiffs = map (\<lambda>r. js_pow approx (js_sub r mean) (num 2)) rs;
          variance = js_div (foldl js_add (num 0) squaredDiffs) (num (real (length rs)))
      in js_sqrt variance)"

text \<open>
  \<^verbatim>\<open>calculateMaxDrawdown(values)\<close>. The loop state is the pair of \<^verbatim>\<open>maxDrawdown\<close> and
  \<^verbatim>\<open>peak\<close>. On an empty array \<^verbatim>\<open>peak\<close> is \<^verbatim>\<open>undefined\<close> and never read.
  \<open>drawdown\<close> is the expression \<^verbatim>\<open>(peak - value) / peak * 100\<close>, which the loop of the
  simulation computes as well.
\<close>

definition drawdown :: "jsnum \<Rightarrow> jsnum \<Rightarrow> jsnum" where
  "drawdown peak v = js_mul (js_div (js_sub peak v) peak) (num 100)"

definition drawdown_step :: "jsnum \<times> jsnum \<Rightarrow> jsnum \<Rightarrow> jsnum \<times> jsnum" where
  "drawdown_step s v =
     (let maxDrawdown = fst s;
          peak = (if js_gt v (snd s) then v else snd s);
          d = drawdown peak v
      in (if js_gt d maxDrawdown then d else maxDrawdown, peak))"

definition calculateMaxDrawdown :: "jsnum list \<Rightarrow> jsnum" where
  "calculateMaxDrawdown vs =
     (case vs of
        [] \<Rightarrow> num 0
      | v0 # _ \<Rightarrow> fst (foldl drawdown_step (num 0, v0) vs))"

text \<open>
  The sequences the specification calls monotonically increasing: every element is
  \<^verbatim>\<open><=\<close> its successor.
\<close>

fun nondecreasing :: "jsnum list \<Rightarrow> bool" where
  "nondecreasing (x # y # zs) = (js_le x y \<and> nondecreasing (y # zs))"
| "nondecreasing _ = True"

section \<open>The simulation\<close>

record results =
  years :: "int list"
  values' :: "jsnum list"
  returns :: "jsnum list"
  finalValue :: jsnum
  totalReturn :: jsnum
  cagr :: jsnum
  volatility :: jsnum
  maxDrawdown :: jsnum
  sharpe :: jsnum

text \<open>
  What the loop of \<^verbatim>\<open>simulatePortfolio\<close> can read and write: the global object, the
  \<^verbatim>\<open>results\<close> object under construction, and the locals \<^verbatim>\<open>value\<close> and \<^verbatim>\<open>peak\<close>.
\<close>

record sim_state =
  st_global :: calc
  st_results :: results
  st_value :: jsnum
  st_peak :: jsnum

text \<open>The weighted return of one year.\<close>

definition portfolioReturn :: "calc \<Rightarrow> jsnum \<Rightarrow> jsnum \<Rightarrow> jsnum \<Rightarrow> int \<Rightarrow> jsnum" where
  "portfolioReturn g stockPct bondPct btcPct year =
     (let stockReturn = yearReturn (stocks (historicalReturns g)) year;
          bondReturn = yearReturn (bonds (historicalReturns g)) year;
          btcReturn = yearReturn (bitcoin (historicalReturns g)) year
      in js_add
           (js_add (js_mul (js_div stockPct (num 100)) stockReturn)
                   (js_mul (js_div bondPct (num 100)) bondReturn))
           (js_mul (js_div btcPct (num 100)) btcReturn))"

text \<open>One iteration of the loop, for the index \<open>i\<close>.\<close>

definition sim_step :: "jsnum \<Rightarrow> jsnum \<Rightarrow> jsnum \<Rightarrow> int \<Rightarrow> sim_state \<Rightarrow> nat \<Rightarrow> sim_state" where
  "sim_step stockPct bondPct btcPct startYr s i =
     (let year = startYr + int i;
          r = portfolioReturn (st_global s) stockPct bondPct btcPct year;
          res1 = (st_results s)\<lparr>returns := returns (st_results s) @ [r]\<rparr>;
          v = js_mul (st_value s) (js_add (num 1) (js_div r (num 100)));
          res2 = res1\<lparr>years := years res1 @ [year]\<rparr>;
          res3 = res2\<lparr>values' := values' res2 @ [v]\<rparr>;
          pk = (if js_gt v (st_peak s) then v else st_peak s);
          d = drawdown pk v;
          res4 = (if js_gt d (maxDrawdown res3) then res3\<lparr>maxDrawdown := d\<rparr> else res3)
      in s\<lparr>st_results := res4, st_value := v, st_peak := pk\<rparr>)"

definition sim_init :: "calc \<Rightarrow> jsnum \<Rightarrow> sim_state" where
  "sim_init g initialValue =
     \<lparr> st_global = g,
       st_results =
         \<lparr> years = [], values' = [], returns = [], finalValue = initialValue,
           totalReturn = num 0, cagr = num 0, volatility = num 0, maxDrawdown = num 0,
           sharpe = num 0 \<rparr>,
       st_value = initialValue, st_peak = initialValue \<rparr>"

definition sim_loop :: "calc \<Rightarrow> jsnum \<Rightarrow> jsnum \<Rightarrow> jsnum \<Rightarrow> jsnum \<Rightarrow> nat \<Rightarrow> int \<Rightarrow> sim_state" where
  "sim_loop g initialValue stockPct bondPct btcPct nyears startYr =
     foldl (sim_step stockPct bondPct btcPct startYr) (sim_init g initialValue) [0..<nyears]"

text \<open>
  \<^verbatim>\<open>simulatePortfolio(initialValue, stockPct, bondPct, btcPct, years, startYear)\<close>, run in
  the global state \<open>g\<close> on an engine whose \<^verbatim>\<open>Math.pow\<close> is \<open>approx\<close>: the result object and
  the global state after the call. The
  number of years is a natural number and the start year an integer, as the specification
  types them, so that the loop index and the year are exact; the initial value and the
  three percentages are any Numbers. The function has no \<^verbatim>\<open>throw\<close> and calls nothing that
  throws, so the model has no error value.
\<close>

definition simulatePortfolio ::
  "(real \<Rightarrow> real \<Rightarrow> jsnum) \<Rightarrow> calc \<Rightarrow> jsnum \<Rightarrow> jsnum \<Rightarrow> jsnum \<Rightarrow> jsnum \<Rightarrow> nat \<Rightarrow> int \<Rightarrow> results \<times> calc" where
  "simulatePortfolio approx g initialValue stockPct bondPct btcPct nyears startYr =
     (let s = sim_loop g initialValue stockPct bondPct btcPct nyears startYr;
          v = st_value s;
          r1 = (st_results s)\<lparr>finalValue := v\<rparr>;
          r2 = r1\<lparr>totalReturn := js_mul (js_div (js_sub v initialValue) initialValue) (num 100)\<rparr>;
          r3 = (if 0 < nyears \<and> js_gt initialValue (num 0)
                then r2\<lparr>cagr := js_mul (js_sub (js_pow approx (js_div v initialValue)
                                                           (js_div (num 1) (num (real nyears))))
                                           (num 1)) (num 100)\<rparr>
                else r2\<lparr>cagr := num 0\<rparr>);
          r4 = r3\<lparr>volatility := calculateStdDev approx (returns r3)\<rparr>;
          r5 = r4\<lparr>sharpe := (if js_gt (volatility r4) (num 0)
                             then js_div (js_sub (cagr r4) (num 2)) (volatility r4)
                             else num 0)\<rparr>
      in (r5, st_global s))"


section \<open>Facts about rounding\<close>

lemma pow2_pos: "0 < pow2 k" by (simp add: pow2_def)

lemma pow2_powr: "pow2 k = 2 powr (of_int k)"
  by (cases "0 \<le> k") (simp_all add: pow2_def powr_realpow[symmetric] powr_minus field_simps flip: powr_realpow)

lemma pow2_mono: "a \<le> b \<Longrightarrow> pow2 a \<le> pow2 b"
  by (simp add: pow2_powr)

lemma pow2_add: "pow2 (a + b) = pow2 a * pow2 b"
  by (simp add: pow2_powr powr_add)

lemma ilog2_eqI: "pow2 e \<le> \<bar>x\<bar> \<Longrightarrow> \<bar>x\<bar> < pow2 (e + 1) \<Longrightarrow> ilog2 x = e"
proof -
  assume a: "pow2 e \<le> \<bar>x\<bar>" and b: "\<bar>x\<bar> < pow2 (e + 1)"
  have "0 < \<bar>x\<bar>" using a pow2_pos[of e] by linarith
  then show ?thesis
    unfolding ilog2_def using a b by (simp add: floor_log_eq_powr_iff pow2_powr)
qed

lemma rne_bounds: "real_of_int (rne q) \<le> q + 1/2 \<and> q - 1/2 \<le> real_of_int (rne q)"
  unfolding rne_def Let_def by (auto; linarith)

lemma rne_ge_int: "of_int k \<le> q \<Longrightarrow> k \<le> rne q"
  unfolding rne_def Let_def by (auto simp: le_floor_iff; linarith)

lemma rne_le_int: "q \<le> of_int k \<Longrightarrow> rne q \<le> k"
proof -
  assume a: "q \<le> of_int k"
  have f: "\<lfloor>q\<rfloor> \<le> k" using a by (simp add: floor_le_iff)  
  show ?thesis
  proof (cases "\<lfloor>q\<rfloor> = k")
    case True
    then have "q - of_int \<lfloor>q\<rfloor> \<le> 0" using a by simp
    then show ?thesis unfolding rne_def Let_def using True by auto
  next
    case False
    then have "\<lfloor>q\<rfloor> + 1 \<le> k" using f by linarith
    then show ?thesis unfolding rne_def Let_def by auto
  qed
qed

lemma round64_normal:
  assumes lo: "pow2 e \<le> \<bar>x\<bar>" and hi: "\<bar>x\<bar> < pow2 (e + 1)"
    and e1: "- 1022 \<le> e" and e2: "e \<le> 1022"
  shows "round64 x = Fin (of_int (rne (x / pow2 (e - 52))) * pow2 (e - 52))"
proof -
  let ?u = "pow2 (e - 52)"
  let ?q = "x / ?u"
  have u: "0 < ?u" by (rule pow2_pos)
  have x0: "x \<noteq> 0" using lo pow2_pos[of e] by auto
  have il: "ilog2 x = e" using lo hi by (rule ilog2_eqI)
  have p52: "pow2 52 = 2 ^ 52" by (simp add: pow2_def)
  have pe: "pow2 e = 2 ^ 52 * ?u" using pow2_add[of 52 "e - 52"] by (simp add: p52)
  have p53: "pow2 53 = 2 ^ 53" by (simp add: pow2_def)
  have pe1: "pow2 (e + 1) = 2 ^ 53 * ?u" using pow2_add[of 53 "e - 52"] by (simp add: p53 add.commute)
  have "2 ^ 52 * ?u \<le> \<bar>x\<bar>" using lo pe by simp
  then have qlo: "2 ^ 52 \<le> \<bar>?q\<bar>" using u by (simp add: field_simps)
  have "\<bar>x\<bar> \<le> 2 ^ 53 * ?u" using hi pe1 by simp
  then have qhi: "\<bar>?q\<bar> \<le> 2 ^ 53" using u by (simp add: field_simps)
  have m: "2 ^ 52 \<le> \<bar>rne ?q\<bar> \<and> \<bar>rne ?q\<bar> \<le> 2 ^ 53"
  proof (cases "0 \<le> ?q")
    case True
    then have "of_int (2 ^ 52) \<le> ?q" "?q \<le> of_int (2 ^ 53)" using qlo qhi by auto
    then have "2 ^ 52 \<le> rne ?q" "rne ?q \<le> 2 ^ 53" by (auto intro: rne_ge_int rne_le_int)
    then show ?thesis by auto
  next
    case False
    then have "?q \<le> of_int (- (2 ^ 52))" "of_int (- (2 ^ 53)) \<le> ?q" using qlo qhi by auto
    then have "rne ?q \<le> - (2 ^ 52)" "- (2 ^ 53) \<le> rne ?q" by (auto intro: rne_ge_int rne_le_int)
    then show ?thesis by auto
  qed
  let ?y = "of_int (rne ?q) * ?u"
  have y0: "?y \<noteq> 0" using m u by auto
  have "\<bar>?y\<bar> = of_int \<bar>rne ?q\<bar> * ?u" using u by (simp add: abs_mult)
  also have "\<dots> \<le> 2 ^ 53 * ?u"
  proof -
    have "\<bar>rne ?q\<bar> \<le> 2 ^ 53" using m by simp
    then have "real_of_int \<bar>rne ?q\<bar> \<le> real_of_int (2 ^ 53)" by (simp only: of_int_le_iff)
    then have "real_of_int \<bar>rne ?q\<bar> \<le> 2 ^ 53" by simp
    then show ?thesis using u by (intro mult_right_mono) simp_all
  qed
  also have "\<dots> = pow2 (e + 1)" by (simp add: pe1)
  also have "\<dots> \<le> pow2 1023" using e2 by (intro pow2_mono) simp
  also have "\<dots> < 2 ^ 1024" by (simp add: pow2_def)
  finally have ylt: "\<not> 2 ^ 1024 \<le> \<bar>?y\<bar>" by simp
  show ?thesis
    unfolding round64_def using x0 il e1 y0 ylt by (simp add: Let_def max_def)
qed


lemma ilog2_bounds:
  assumes "x \<noteq> 0"
  shows "pow2 (ilog2 x) \<le> \<bar>x\<bar> \<and> \<bar>x\<bar> < pow2 (ilog2 x + 1)"
proof -
  have "0 < \<bar>x\<bar>" using assms by simp
  then have "(\<lfloor>log 2 \<bar>x\<bar>\<rfloor> = ilog2 x) =
             (2 powr real_of_int (ilog2 x) \<le> \<bar>x\<bar> \<and> \<bar>x\<bar> < 2 powr real_of_int (ilog2 x + 1))"
    by (intro floor_log_eq_powr_iff) simp_all
  then show ?thesis by (simp add: ilog2_def pow2_powr)
qed

lemma ilog2_mono_lower:
  assumes "pow2 k \<le> \<bar>x\<bar>"
  shows "k \<le> ilog2 x"
proof -
  have x: "0 < \<bar>x\<bar>" using assms pow2_pos[of k] by linarith
  have "2 powr real_of_int k \<le> \<bar>x\<bar>" using assms by (simp add: pow2_powr)
  then have "real_of_int k \<le> log 2 \<bar>x\<bar>" using x by (simp add: le_log_iff)
  then show ?thesis by (simp add: ilog2_def le_floor_iff)
qed

lemma ilog2_upper:
  assumes "x \<noteq> 0" and "\<bar>x\<bar> < pow2 k"
  shows "ilog2 x < k"
proof -
  have x: "0 < \<bar>x\<bar>" using assms by simp
  have "\<bar>x\<bar> < 2 powr real_of_int k" using assms by (simp add: pow2_powr)
  then have "log 2 \<bar>x\<bar> < real_of_int k" using x by (simp add: log_less_iff)
  then show ?thesis by (simp add: ilog2_def floor_less_iff)
qed

text \<open>A real with a magnitude below \<open>2^1023\<close> rounds to a finite value.\<close>

lemma round64_finite:
  assumes "\<bar>x\<bar> < 2 ^ 1023"
  shows "\<not> is_inf (round64 x) \<and> \<not> is_nan (round64 x)"
proof (cases "x = 0")
  case True
  then show ?thesis by (simp add: round64_def)
next
  case False
  let ?k = "max (ilog2 x) (- 1022) - 52"
  let ?u = "pow2 ?k"
  let ?y = "of_int (rne (x / ?u)) * ?u"
  have u: "0 < ?u" by (rule pow2_pos)
  have "\<bar>x\<bar> < pow2 1023" using assms by (simp add: pow2_def)
  then have "ilog2 x < 1023" using False by (intro ilog2_upper)
  then have "?k \<le> 970" by simp
  then have "?u \<le> pow2 970" by (rule pow2_mono)
  then have u970: "?u \<le> 2 ^ 970" by (simp add: pow2_def)
  have "\<bar>real_of_int (rne (x / ?u))\<bar> \<le> \<bar>x / ?u\<bar> + 1 / 2"
    using rne_bounds[of "x / ?u"] by linarith
  then have "\<bar>real_of_int (rne (x / ?u))\<bar> * ?u \<le> (\<bar>x / ?u\<bar> + 1 / 2) * ?u"
    using u by (intro mult_right_mono) simp_all
  also have "\<dots> = \<bar>x\<bar> + ?u / 2" using u by (simp add: field_simps)
  finally have "\<bar>?y\<bar> \<le> \<bar>x\<bar> + ?u / 2" using u by (simp add: abs_mult)
  then have "\<bar>?y\<bar> < 2 ^ 1023 + 2 ^ 970 / 2" using assms u970 by linarith
  also have "\<dots> < (2 ^ 1024 :: real)" by simp
  finally have "\<not> 2 ^ 1024 \<le> \<bar>?y\<bar>" by simp
  then show ?thesis unfolding round64_def using False by (simp add: Let_def)
qed

text \<open>A real with a magnitude in the normal range rounds to a nonzero value of its sign.\<close>

lemma round64_nonzero:
  assumes "pow2 (- 1022) \<le> \<bar>x\<bar>"
  shows "\<not> is_zero (round64 x) \<and> \<not> is_nan (round64 x) \<and> sign_neg (round64 x) = (x < 0)"
proof -
  let ?e = "ilog2 x"
  let ?u = "pow2 (?e - 52)"
  let ?q = "x / ?u"
  let ?y = "of_int (rne ?q) * ?u"
  have x0: "x \<noteq> 0" using assms pow2_pos[of "- 1022"] by auto
  have e: "- 1022 \<le> ?e" using assms by (rule ilog2_mono_lower)
  have u: "0 < ?u" by (rule pow2_pos)
  have p52: "pow2 52 = 2 ^ 52" by (simp add: pow2_def)
  have pe: "pow2 ?e = 2 ^ 52 * ?u" using pow2_add[of 52 "?e - 52"] by (simp add: p52)
  have "2 ^ 52 * ?u \<le> \<bar>x\<bar>" using ilog2_bounds[OF x0] pe by simp
  then have qlo: "2 ^ 52 \<le> \<bar>?q\<bar>" using u by (simp add: field_simps)
  have m: "(0 < x \<longrightarrow> 0 < rne ?q) \<and> (x < 0 \<longrightarrow> rne ?q < 0)"
  proof (cases "0 < x")
    case True
    then have "of_int (2 ^ 52) \<le> ?q" using qlo u by (simp add: abs_if field_simps split: if_splits)
    then have "2 ^ 52 \<le> rne ?q" by (rule rne_ge_int)
    then show ?thesis using True by auto
  next
    case False
    then have neg: "x < 0" using x0 by simp
    then have "?q < 0" using u by (simp add: field_simps)
    then have "?q \<le> of_int (- (2 ^ 52))" using qlo by simp
    then have "rne ?q \<le> - (2 ^ 52)" by (rule rne_le_int)
    then show ?thesis using neg by auto
  qed
  have y: "(0 < x \<longrightarrow> 0 < ?y) \<and> (x < 0 \<longrightarrow> ?y < 0)"
    using m u by (auto simp: zero_less_mult_iff mult_less_0_iff)
  have k: "max ?e (- 1022) = ?e" using e by simp
  show ?thesis
    unfolding round64_def using x0 y by (cases "0 < x") (auto simp: Let_def k)
qed

text \<open>An integer of magnitude below \<open>2^53\<close> is a binary64 value.\<close>

lemma rne_int: "rne (of_int m) = m"
  by (simp add: rne_def)

lemma round64_int:
  assumes "\<bar>k\<bar> < 2 ^ 53"
  shows "round64 (of_int k) = Fin (of_int k)"
proof (cases "k = 0")
  case True
  then show ?thesis by (simp add: round64_def)
next
  case False
  let ?x = "real_of_int k"
  let ?e = "ilog2 ?x"
  have x0: "?x \<noteq> 0" using False by simp
  have "pow2 0 \<le> \<bar>?x\<bar>" using False by (simp add: pow2_def)
  then have e0: "0 \<le> ?e" by (rule ilog2_mono_lower)
  have "\<bar>?x\<bar> < real_of_int (2 ^ 53)" using assms by (simp only: of_int_abs[symmetric] of_int_less_iff)
  then have "\<bar>?x\<bar> < pow2 53" by (simp add: pow2_def)
  then have e53: "?e < 53" using x0 by (intro ilog2_upper)
  let ?j = "nat (52 - ?e)"
  have "pow2 (?e - 52) * pow2 (52 - ?e) = 1" using pow2_add[of "?e - 52" "52 - ?e"] by (simp add: pow2_def)
  moreover have "pow2 (52 - ?e) = 2 ^ ?j" using e53 by (simp add: pow2_def)
  ultimately have u: "pow2 (?e - 52) * 2 ^ ?j = 1" by simp
  then have "?x / pow2 (?e - 52) = ?x * 2 ^ ?j"
    using pow2_pos[of "?e - 52"] by (simp add: field_simps)
  also have "\<dots> = real_of_int (k * 2 ^ ?j)" by simp
  finally have q: "?x / pow2 (?e - 52) = real_of_int (k * 2 ^ ?j)" .
  have "round64 ?x = Fin (of_int (rne (?x / pow2 (?e - 52))) * pow2 (?e - 52))"
    using ilog2_bounds[OF x0] e0 e53 by (intro round64_normal) simp_all
  also have "\<dots> = Fin (real_of_int (k * 2 ^ ?j) * pow2 (?e - 52))"
    by (simp only: q rne_int)
  also have "\<dots> = Fin ?x" using u by (simp add: mult.assoc mult.commute[of "pow2 (?e - 52)"])
  finally show ?thesis .
qed

lemma round64_numeral: "(numeral n :: int) < 2 ^ 53 \<Longrightarrow> round64 (numeral n) = Fin (numeral n)"
  using round64_int[of "numeral n"] by simp

lemma round64_neg_numeral:
  "(numeral n :: int) < 2 ^ 53 \<Longrightarrow> round64 (- numeral n) = Fin (- numeral n)"
  using round64_int[of "- numeral n"] by simp

subsection \<open>Literals of the source\<close>

lemma num_0 [simp]: "num 0 = Fin 0"
  by (simp add: num_def round64_def)

lemma num_1 [simp]: "num 1 = Fin 1"
  unfolding num_def by (subst round64_normal[where e=0]) (simp_all add: pow2_def rne_def Let_def)

lemma num_2 [simp]: "num 2 = Fin 2"
  unfolding num_def by (subst round64_normal[where e=1]) (simp_all add: pow2_def rne_def Let_def)

lemma num_100 [simp]: "num 100 = Fin 100"
  unfolding num_def by (subst round64_normal[where e=6]) (simp_all add: pow2_def rne_def Let_def)

lemma round64_1: "round64 1 = Fin 1"
  using num_1 by (simp add: num_def)

lemma num_finite:
  assumes "\<bar>x\<bar> < 2000"
  shows "is_finite (num x)"
proof -
  have "(2000::real) < 2 ^ 11" by simp
  also have "\<dots> \<le> 2 ^ 1023" by (rule power_increasing) simp_all
  finally have "\<bar>x\<bar> < 2 ^ 1023" using assms by simp
  then show ?thesis using round64_finite[of x] by (cases "round64 x") (simp_all add: num_def)
qed

lemma num_25: "num 25 = Fin 25"
  unfolding num_def by (subst round64_normal[where e=4]) (simp_all add: pow2_def rne_def Let_def)

lemma num_120: "num 120 = Fin 120"
  unfolding num_def by (subst round64_normal[where e=6]) (simp_all add: pow2_def rne_def Let_def)

lemma num_1_2: "num (6 / 5) = Fin (5404319552844595 / 2 ^ 52)"
  unfolding num_def by (subst round64_normal[where e=0]) (simp_all add: pow2_def rne_def Let_def)

lemma num_tenth: "num (1 / 10) = Fin (3602879701896397 / 2 ^ 55)"
  unfolding num_def by (subst round64_normal[where e="-4"]) (simp_all add: pow2_def rne_def Let_def)

lemma num_3: "num 3 = Fin 3"
  unfolding num_def by (subst round64_normal[where e=1]) (simp_all add: pow2_def rne_def Let_def)

section \<open>Facts about the loop\<close>

lemma sim_loop_0: "sim_loop g iv s b c 0 sy = sim_init g iv"
  by (simp add: sim_loop_def)

lemma sim_loop_Suc:
  "sim_loop g iv s b c (Suc n) sy = sim_step s b c sy (sim_loop g iv s b c n sy) n"
  by (simp add: sim_loop_def)

lemma sim_step_global: "st_global (sim_step s b c sy st i) = st_global st"
  by (simp add: sim_step_def Let_def)

lemma sim_loop_global: "st_global (sim_loop g iv s b c n sy) = g"
  by (induction n) (simp_all add: sim_loop_0 sim_loop_Suc sim_step_global sim_init_def)

lemma sim_step_returns:
  "returns (st_results (sim_step s b c sy st i)) =
     returns (st_results st) @ [portfolioReturn (st_global st) s b c (sy + int i)]"
  by (simp add: sim_step_def Let_def)

lemma sim_step_years:
  "years (st_results (sim_step s b c sy st i)) = years (st_results st) @ [sy + int i]"
  by (simp add: sim_step_def Let_def)

lemma sim_loop_returns:
  "returns (st_results (sim_loop g iv s b c n sy)) =
     map (\<lambda>i. portfolioReturn g s b c (sy + int i)) [0..<n]"
  by (induction n)
     (simp_all add: sim_loop_0 sim_loop_Suc sim_step_returns sim_loop_global sim_init_def)

lemma sim_loop_years:
  "years (st_results (sim_loop g iv s b c n sy)) = map (\<lambda>i. sy + int i) [0..<n]"
  by (induction n) (simp_all add: sim_loop_0 sim_loop_Suc sim_step_years sim_init_def)

lemma simulate_returns:
  "returns (fst (simulatePortfolio P g iv s b c n sy)) =
     map (\<lambda>i. portfolioReturn g s b c (sy + int i)) [0..<n]"
  by (simp add: simulatePortfolio_def Let_def sim_loop_returns)

lemma simulate_global: "snd (simulatePortfolio P g iv s b c n sy) = g"
  by (simp add: simulatePortfolio_def Let_def sim_loop_global)

subsection \<open>The simulation reads the table of returns only\<close>

lemma portfolioReturn_cong:
  "historicalReturns g' = historicalReturns g \<Longrightarrow>
   portfolioReturn g' s b c y = portfolioReturn g s b c y"
  by (simp add: portfolioReturn_def)

lemma sim_step_cong:
  "historicalReturns g' = historicalReturns (st_global st) \<Longrightarrow>
   sim_step s b c sy (st\<lparr>st_global := g'\<rparr>) i = (sim_step s b c sy st i)\<lparr>st_global := g'\<rparr>"
  by (simp add: sim_step_def Let_def portfolioReturn_def)

lemma sim_loop_cong:
  "historicalReturns g' = historicalReturns g \<Longrightarrow>
   sim_loop g' iv s b c n sy = (sim_loop g iv s b c n sy)\<lparr>st_global := g'\<rparr>"
proof (induction n)
  case 0
  then show ?case by (simp add: sim_loop_0 sim_init_def)
next
  case (Suc n)
  have "sim_loop g' iv s b c (Suc n) sy =
        sim_step s b c sy ((sim_loop g iv s b c n sy)\<lparr>st_global := g'\<rparr>) n"
    using Suc by (simp add: sim_loop_Suc)
  also have "\<dots> = (sim_step s b c sy (sim_loop g iv s b c n sy) n)\<lparr>st_global := g'\<rparr>"
    using Suc.prems by (intro sim_step_cong) (simp add: sim_loop_global)
  finally show ?case by (simp add: sim_loop_Suc)
qed

lemma simulate_cong:
  "historicalReturns g' = historicalReturns g \<Longrightarrow>
   fst (simulatePortfolio P g' iv s b c n sy) = fst (simulatePortfolio P g iv s b c n sy)"
  by (simp add: simulatePortfolio_def Let_def sim_loop_cong[of g' g])

subsection \<open>Years beyond the table\<close>

lemma beyond_stocks: "2024 < y \<Longrightarrow> yearReturn (stocks (historicalReturns portfolioCalc)) y = num 25"
  by (simp add: yearReturn_def portfolioCalc_def stocks_table_def)

lemma beyond_bonds: "2024 < y \<Longrightarrow> yearReturn (bonds (historicalReturns portfolioCalc)) y = num 1.2"
  by (simp add: yearReturn_def portfolioCalc_def bonds_table_def)

lemma beyond_bitcoin: "2024 < y \<Longrightarrow> yearReturn (bitcoin (historicalReturns portfolioCalc)) y = num 120"
  by (simp add: yearReturn_def portfolioCalc_def bitcoin_table_def)

lemma at_2024:
  "yearReturn (stocks (historicalReturns portfolioCalc)) 2024 = num 25"
  "yearReturn (bonds (historicalReturns portfolioCalc)) 2024 = num 1.2"
  "yearReturn (bitcoin (historicalReturns portfolioCalc)) 2024 = num 120"
  by (simp_all add: yearReturn_def portfolioCalc_def stocks_table_def bonds_table_def bitcoin_table_def)

lemma beyond_portfolioReturn:
  "2024 < y \<Longrightarrow> portfolioReturn portfolioCalc s b c y = portfolioReturn portfolioCalc s b c 2024"
  by (simp add: portfolioReturn_def beyond_stocks beyond_bonds beyond_bitcoin at_2024)

subsection \<open>A run from an initial value of zero\<close>

lemma mul_zero_left: "is_zero a \<Longrightarrow> is_zero (js_mul a b) \<or> is_nan (js_mul a b)"
  by (cases a; cases b) (simp_all add: js_mul_def mk_zero_def)

lemma mul_nan_left [simp]: "js_mul NaN b = NaN"
  by (simp add: js_mul_def)

lemma not_gt_zero_peak:
  "is_zero p \<Longrightarrow> is_zero v \<or> is_nan v \<Longrightarrow> \<not> js_gt v p"
  by (cases p; cases v) (simp_all add: js_gt_def)

lemma drawdown_zero_peak:
  "is_zero p \<Longrightarrow> is_zero v \<or> is_nan v \<Longrightarrow> drawdown p v = NaN"
  by (cases p; cases v) (simp_all add: drawdown_def js_sub_def js_add_def js_div_def mk_zero_def round64_def)

lemma not_gt_nan [simp]: "\<not> js_gt NaN m"
  by (cases m) (simp_all add: js_gt_def)

lemma zero_initial_invariant:
  assumes "is_zero iv"
  shows "is_zero (st_peak (sim_loop g iv s b c n sy)) \<and>
         (is_zero (st_value (sim_loop g iv s b c n sy)) \<or> is_nan (st_value (sim_loop g iv s b c n sy))) \<and>
         maxDrawdown (st_results (sim_loop g iv s b c n sy)) = Fin 0"
proof (induction n)
  case 0
  show ?case using assms by (simp add: sim_loop_0 sim_init_def)
next
  case (Suc n)
  let ?st = "sim_loop g iv s b c n sy"
  let ?v = "js_mul (st_value ?st)
              (js_add (num 1) (js_div (portfolioReturn (st_global ?st) s b c (sy + int n)) (num 100)))"
  have v: "is_zero ?v \<or> is_nan ?v"
  proof (cases "is_nan (st_value ?st)")
    case True
    then have "st_value ?st = NaN" by (cases "st_value ?st") simp_all
    then show ?thesis by simp
  next
    case False
    then have "is_zero (st_value ?st)" using Suc by simp
    then show ?thesis by (rule mul_zero_left)
  qed
  have pk: "is_zero (st_peak ?st)" using Suc by simp
  have g: "\<not> js_gt ?v (st_peak ?st)" using pk v by (rule not_gt_zero_peak)
  have d: "drawdown (st_peak ?st) ?v = NaN" using pk v by (rule drawdown_zero_peak)
  have step: "sim_loop g iv s b c (Suc n) sy = sim_step s b c sy ?st n" by (rule sim_loop_Suc)
  have 1: "st_peak (sim_step s b c sy ?st n) = st_peak ?st"
    using g by (simp add: sim_step_def Let_def)
  have 2: "st_value (sim_step s b c sy ?st n) = ?v"
    by (simp add: sim_step_def Let_def)
  have 3: "maxDrawdown (st_results (sim_step s b c sy ?st n)) = maxDrawdown (st_results ?st)"
    using g d by (simp add: sim_step_def Let_def)
  show ?case unfolding step 1 2 3 using Suc v assms by simp
qed

lemma simulate_maxDrawdown:
  "maxDrawdown (fst (simulatePortfolio P g iv s b c n sy)) =
     maxDrawdown (st_results (sim_loop g iv s b c n sy))"
  by (simp add: simulatePortfolio_def Let_def)

lemma simulate_totalReturn:
  "totalReturn (fst (simulatePortfolio P g iv s b c n sy)) =
     js_mul (js_div (js_sub (st_value (sim_loop g iv s b c n sy)) iv) iv) (num 100)"
  by (simp add: simulatePortfolio_def Let_def)

lemma totalReturn_zero: 
  "is_zero iv \<Longrightarrow> is_zero v \<or> is_nan v \<Longrightarrow> js_mul (js_div (js_sub v iv) iv) m = NaN"
  by (cases iv; cases v) (simp_all add: js_sub_def js_add_def js_div_def mk_zero_def round64_def)

subsection \<open>An allocation of zero to every asset\<close>

lemma yearReturn_finite:
  assumes "list_all (\<lambda>p. is_finite (snd p)) ps" and "map_of ps 2024 \<noteq> None"
  shows "is_finite (yearReturn (map_of ps) y)"
proof -
  have "is_finite v" if "map_of ps k = Some v" for k v
    using assms(1) map_of_SomeD[OF that] by (auto simp: list_all_iff)
  then show ?thesis using assms(2) by (auto simp: yearReturn_def split: option.splits)
qed

lemma stocks_finite: "is_finite (yearReturn (stocks (historicalReturns portfolioCalc)) y)"
proof -
  have "is_finite (yearReturn (map_of stocks_table) y)"
    by (rule yearReturn_finite) (simp_all add: stocks_table_def num_finite)
  then show ?thesis by (simp add: portfolioCalc_def)
qed

lemma bonds_finite: "is_finite (yearReturn (bonds (historicalReturns portfolioCalc)) y)"
proof -
  have "is_finite (yearReturn (map_of bonds_table) y)"
    by (rule yearReturn_finite) (simp_all add: bonds_table_def num_finite)
  then show ?thesis by (simp add: portfolioCalc_def)
qed

lemma bitcoin_finite: "is_finite (yearReturn (bitcoin (historicalReturns portfolioCalc)) y)"
proof -
  have "is_finite (yearReturn (map_of bitcoin_table) y)"
    by (rule yearReturn_finite) (simp_all add: bitcoin_table_def num_finite)
  then show ?thesis by (simp add: portfolioCalc_def)
qed

lemma zero_pct_term: "is_zero p \<Longrightarrow> is_finite r \<Longrightarrow> is_zero (js_mul (js_div p (num 100)) r)"
  by (cases p; cases r) (simp_all add: js_mul_def js_div_def mk_zero_def)

lemma add_zeros: "is_zero a \<Longrightarrow> is_zero b \<Longrightarrow> is_zero (js_add a b)"
  by (cases a; cases b) (simp_all add: js_add_def mk_zero_def)

lemma zero_pct_return:
  assumes "is_zero s" "is_zero b" "is_zero c"
  shows "is_zero (portfolioReturn portfolioCalc s b c y)"
  unfolding portfolioReturn_def Let_def
  by (intro add_zeros zero_pct_term assms stocks_finite bonds_finite bitcoin_finite)

lemma growth_by_zero: "is_zero r \<Longrightarrow> js_add (num 1) (js_div r (num 100)) = Fin 1"
  by (cases r) (simp_all add: js_add_def js_div_def mk_zero_def round64_1)

lemma mul_one: "is_double v \<Longrightarrow> js_mul v (Fin 1) = v"
  by (cases v) (simp_all add: js_mul_def mk_zero_def mk_inf_def)

lemma zero_pct_value:
  assumes "is_zero s" "is_zero b" "is_zero c" "is_double iv"
  shows "st_value (sim_loop portfolioCalc iv s b c n sy) = iv"
proof (induction n)
  case 0
  show ?case by (simp add: sim_loop_0 sim_init_def)
next
  case (Suc n)
  have "is_zero (portfolioReturn portfolioCalc s b c (sy + int n))"
    using assms(1-3) by (rule zero_pct_return)
  then have "js_add (num 1) (js_div (portfolioReturn portfolioCalc s b c (sy + int n)) (num 100)) = Fin 1"
    by (rule growth_by_zero)
  then show ?case using Suc assms(4)
    by (simp add: sim_loop_Suc sim_step_def Let_def sim_loop_global mul_one)
qed

lemma js_eq_zero: "js_eq r (num 0) = is_zero r"
  by (cases r) (auto simp: js_eq_def js_le_def)

lemma double_1000000: "is_double (Fin 1000000)"
  by (simp, subst round64_normal[where e=19]) (simp_all add: pow2_def rne_def Let_def)

subsection \<open>The scan for the maximal drawdown\<close>

lemma js_lt_irrefl: "\<not> js_lt a a"
  by (cases a) simp_all

lemma drawdown_same: "\<not> js_gt (drawdown v v) (Fin 0)"
  by (cases v) (simp_all add: drawdown_def js_sub_def js_add_def js_div_def js_mul_def
        mk_zero_def mk_inf_def js_gt_def round64_def)

lemma drawdown_eq: "js_eq p v \<Longrightarrow> \<not> js_gt (drawdown p v) (Fin 0)"
  by (cases p; cases v) (simp_all add: drawdown_def js_sub_def js_add_def js_div_def js_mul_def
        mk_zero_def mk_inf_def js_gt_def js_eq_def js_le_def round64_def)

lemma js_le_trans_eq: "js_eq p v \<Longrightarrow> js_le v w \<Longrightarrow> js_le p w"
  by (cases p; cases v; cases w) (simp_all add: js_eq_def js_le_def)

lemma le_not_gt_eq: "js_le p v \<Longrightarrow> \<not> js_gt v p \<Longrightarrow> js_eq p v"
  by (cases p; cases v) (simp_all add: js_eq_def js_le_def js_gt_def)

lemma drawdown_scan_zero:
  "(vs = [] \<or> p = hd vs \<or> js_le p (hd vs)) \<Longrightarrow> nondecreasing vs \<Longrightarrow>
   fst (foldl drawdown_step (Fin 0, p) vs) = Fin 0"
proof (induction vs arbitrary: p)
  case Nil
  show ?case by simp
next
  case (Cons v vs)
  define pk where "pk = (if js_gt v p then v else p)"
  have near: "pk = v \<or> js_eq pk v"
    using Cons.prems(1) by (auto simp: pk_def js_gt_def js_lt_irrefl dest: le_not_gt_eq)
  then have d: "\<not> js_gt (drawdown pk v) (Fin 0)"
    using drawdown_same[of v] drawdown_eq[of pk v] by metis
  have "drawdown_step (Fin 0, p) v =
        (if js_gt (drawdown pk v) (Fin 0) then drawdown pk v else Fin 0, pk)"
    by (simp add: drawdown_step_def Let_def pk_def)
  then have step: "drawdown_step (Fin 0, p) v = (Fin 0, pk)"
    using d by simp
  have nxt: "vs = [] \<or> pk = hd vs \<or> js_le pk (hd vs)"
  proof (cases vs)
    case Nil
    then show ?thesis by simp
  next
    case (Cons w ws)
    then have "js_le v w" using \<open>nondecreasing (v # vs)\<close> by simp
    then show ?thesis using near Cons by (auto dest: js_le_trans_eq)
  qed
  have nd: "nondecreasing vs" using Cons.prems(2) by (cases vs) simp_all
  show ?case using Cons.IH[OF nxt nd] by (simp add: step)
qed

lemma round64_50: "round64 50 = Fin 50"
  by (subst round64_normal[where e=5]) (simp_all add: pow2_def rne_def Let_def)

lemma round64_half: "round64 (1 / 2) = Fin (1 / 2)"
  by (subst round64_normal[where e="-1"]) (simp_all add: pow2_def rne_def Let_def)

lemma drawdown_100_50: "drawdown (Fin 100) (Fin 50) = Fin 50"
  by (simp add: drawdown_def js_sub_def js_add_def js_div_def js_mul_def round64_50 round64_half)

lemma drawdown_100_100: "drawdown (Fin 100) (Fin 100) = Fin 0"
  by (simp add: drawdown_def js_sub_def js_add_def js_div_def js_mul_def mk_zero_def round64_def)

subsection \<open>The standard deviation\<close>

lemma sub_eq_zero: "is_finite c \<Longrightarrow> js_eq m c \<Longrightarrow> is_zero (js_sub c m)"
  by (cases c; cases m)
     (auto simp: js_sub_def js_add_def js_eq_def js_le_def mk_zero_def round64_def)

lemma pow_zero_2: "is_zero z \<Longrightarrow> js_pow P z (Fin 2) = Fin 0"
  by (cases z) (simp_all add: js_pow_def mk_zero_def odd_integer_def)

lemma sum_zeros: "foldl js_add (Fin 0) (replicate n (Fin 0)) = Fin 0"
  by (induction n) (simp_all add: js_add_def mk_zero_def)

lemma num_length_pos:
  assumes "0 < n"
  shows "\<not> is_zero (num (real n)) \<and> \<not> is_nan (num (real n)) \<and> \<not> sign_neg (num (real n))"
proof -
  have "pow2 (- 1022) \<le> 1" by (simp add: pow2_def)
  also have "1 \<le> \<bar>real n\<bar>" using assms by simp
  finally show ?thesis using round64_nonzero[of "real n"] by (simp add: num_def)
qed

lemma zero_div_length:
  assumes "0 < n"
  shows "js_div (Fin 0) (num (real n)) = Fin 0"
  using num_length_pos[OF assms] by (cases "num (real n)") (simp_all add: js_div_def mk_zero_def)

lemma stddev_constant:
  assumes n: "0 < n" and c: "is_finite c"
    and m: "js_eq (js_div (foldl js_add (num 0) (replicate n c)) (num (real n))) c"
  shows "calculateStdDev P (replicate n c) = Fin 0"
proof -
  let ?mean = "js_div (foldl js_add (num 0) (replicate n c)) (num (real n))"
  have "js_pow P (js_sub c ?mean) (num 2) = Fin 0"
    using sub_eq_zero[OF c m] by (simp add: pow_zero_2)
  then have "map (\<lambda>x. js_pow P (js_sub x ?mean) (num 2)) (replicate n c) = replicate n (Fin 0)"
    by simp
  then show ?thesis
    using n by (simp add: calculateStdDev_def Let_def sum_zeros zero_div_length js_sqrt_def)
qed

lemma mean_single:
  assumes "is_double c" and "is_finite c"
  shows "js_eq (js_div (foldl js_add (num 0) (replicate 1 c)) (num (real 1))) c"
  using assms by (cases c) (auto simp: js_add_def js_div_def js_eq_def js_le_def mk_zero_def)

lemma add_exact: "exact (a + b) \<Longrightarrow> js_add (Fin a) (Fin b) = Fin (a + b)"
  by (auto simp: js_add_def exact_def mk_zero_def)

lemma sum_exact:
  "exact_sums acc xs \<Longrightarrow> foldl js_add (Fin acc) (map Fin xs) = Fin (acc + sum_list xs)"
  by (induction xs arbitrary: acc) (simp_all add: add_exact add.assoc)

lemma sub_exact: "exact (a - b) \<Longrightarrow> js_sub (Fin a) (Fin b) = Fin (a - b)"
  by (auto simp: js_sub_def js_add_def exact_def mk_zero_def)

lemma div_exact: "0 < n \<Longrightarrow> exact (a / n) \<Longrightarrow> js_div (Fin a) (Fin n) = Fin (a / n)"
  by (auto simp: js_div_def exact_def mk_zero_def)

lemma square_exact:
  "d = 0 \<or> P d 2 = Fin (d\<^sup>2) \<Longrightarrow> js_pow P (Fin d) (Fin 2) = Fin (d\<^sup>2)"
  by (auto simp: js_pow_def mk_zero_def odd_integer_def)

lemma sqrt_exact: "0 \<le> v \<Longrightarrow> exact (sqrt v) \<Longrightarrow> js_sqrt (Fin v) = Fin (sqrt v)"
  by (auto simp: js_sqrt_def exact_def)

text \<open>
  When no operation rounds, the helper returns the population standard deviation of the
  real numbers its elements denote.
\<close>

lemma stddev_refines:
  assumes ne: "xs \<noteq> []" and nr: "no_rounding P xs"
  shows "calculateStdDev P (map Fin xs) = Fin (population_sd xs)"
proof -
  define N where "N = real (length xs)"
  define mean where "mean = sum_list xs / N"
  define qs where "qs = map (\<lambda>x. (x - mean)\<^sup>2) xs"
  define v where "v = sum_list qs / N"
  have N: "0 < N" using ne by (simp add: N_def)
  have h: "exact N" "exact_sums 0 xs" "exact mean" "list_all exact (map (\<lambda>x. x - mean) xs)"
    "list_all (\<lambda>d. d = 0 \<or> P d 2 = Fin (d\<^sup>2)) (map (\<lambda>x. x - mean) xs)"
    "exact_sums 0 qs" "exact v" "exact (sqrt v)"
    using nr by (simp_all add: no_rounding_def Let_def N_def mean_def qs_def v_def o_def)
  have len: "num (real (length xs)) = Fin N" using h(1) by (simp add: num_def exact_def N_def)
  have s: "foldl js_add (Fin 0) (map Fin xs) = Fin (sum_list xs)"
    using sum_exact[OF h(2)] by simp
  have m: "js_div (foldl js_add (Fin 0) (map Fin xs)) (Fin N) = Fin mean"
    unfolding s using N h(3) by (simp add: div_exact mean_def)
  have q: "js_pow P (js_sub (Fin x) (Fin mean)) (Fin 2) = Fin ((x - mean)\<^sup>2)" if "x \<in> set xs" for x
  proof -
    have "exact (x - mean)" "x - mean = 0 \<or> P (x - mean) 2 = Fin ((x - mean)\<^sup>2)"
      using h(4,5) that by (auto simp: list_all_iff)
    then show ?thesis by (simp add: sub_exact square_exact)
  qed
  have sq: "map ((\<lambda>x. js_pow P (js_sub x (Fin mean)) (Fin 2)) \<circ> Fin) xs = map Fin qs"
    using q by (simp add: qs_def)
  have t: "foldl js_add (Fin 0) (map Fin qs) = Fin (sum_list qs)"
    using sum_exact[OF h(6)] by simp
  have "0 \<le> sum_list qs" unfolding qs_def by (rule sum_list_nonneg) auto
  then have v0: "0 \<le> v" using N by (simp add: v_def)
  have "calculateStdDev P (map Fin xs) = js_sqrt (js_div (Fin (sum_list qs)) (Fin N))"
    using ne by (simp add: calculateStdDev_def Let_def len m sq t)
  also have "\<dots> = js_sqrt (Fin v)" using N h(7) by (simp add: div_exact v_def)
  also have "\<dots> = Fin (sqrt v)" using v0 h(8) by (rule sqrt_exact)
  also have "sqrt v = population_sd xs"
    by (simp add: population_sd_def Let_def v_def qs_def mean_def N_def)
  finally show ?thesis .
qed

text \<open>Such a run: the eight values \<open>2, 4, 4, 4, 5, 5, 7, 9\<close>, of mean \<open>5\<close> and deviation \<open>2\<close>.\<close>

lemma round64_0: "round64 0 = Fin 0"
  by (simp add: round64_def)

lemma round64_m1: "round64 (- 1) = Fin (- 1)"
  using round64_int[of "- 1"] by simp

lemma example_squares:
  "cr_pow (- 3) 2 = Fin 9" "cr_pow (- 1) 2 = Fin 1" "cr_pow 2 2 = Fin 4" "cr_pow 4 2 = Fin 16"
  by (simp_all add: cr_pow_def round64_numeral round64_1)

lemma example_population_sd: "population_sd [2, 4, 4, 4, 5, 5, 7, 9] = 2"
proof -
  have "sqrt 4 = 2" by (rule real_sqrt_unique) simp_all
  then show ?thesis by (simp add: population_sd_def Let_def)
qed

lemma example_no_rounding: "no_rounding cr_pow [2, 4, 4, 4, 5, 5, 7, 9]"
proof -
  have "sqrt 4 = 2" by (rule real_sqrt_unique) simp_all
  then show ?thesis
    by (simp add: no_rounding_def Let_def exact_def round64_numeral round64_neg_numeral
          round64_0 round64_1 round64_m1 example_squares)
qed

lemma volatility_nonempty: "rs \<noteq> [] \<Longrightarrow> calculateVolatility P rs = calculateStdDev P rs"
  by (simp add: calculateVolatility_def calculateStdDev_def Let_def)

lemma round64_5: "round64 5 = Fin 5"
  by (subst round64_normal[where e=2]) (simp_all add: pow2_def rne_def Let_def)

lemma round64_10: "round64 10 = Fin 10"
  by (subst round64_normal[where e=3]) (simp_all add: pow2_def rne_def Let_def)

subsection \<open>Three years from 2014, all in stocks\<close>

lemma add_zero_right: "is_zero z \<Longrightarrow> s \<noteq> 0 \<Longrightarrow> js_add (Fin s) z = round64 s"
  by (cases z) (simp_all add: js_add_def)

lemma all_in_stocks:
  assumes y: "yearReturn (stocks (historicalReturns portfolioCalc)) y = Fin s"
    and s: "s \<noteq> 0" and d: "round64 s = Fin s"
  shows "portfolioReturn portfolioCalc (Fin 100) (Fin 0) (Fin 0) y = Fin s"
proof -
  have z: "is_zero (Fin 0)" by simp
  have b: "is_zero (js_mul (js_div (Fin 0) (num 100)) (yearReturn (bonds (historicalReturns portfolioCalc)) y))"
    using z bonds_finite by (rule zero_pct_term)
  have c: "is_zero (js_mul (js_div (Fin 0) (num 100)) (yearReturn (bitcoin (historicalReturns portfolioCalc)) y))"
    using z bitcoin_finite by (rule zero_pct_term)
  have a: "js_mul (js_div (Fin 100) (num 100)) (Fin s) = Fin s"
    using s d by (simp add: js_div_def js_mul_def round64_1)
  show ?thesis
    unfolding portfolioReturn_def Let_def y a
    by (simp only: add_zero_right[OF b s] d add_zero_right[OF c s])
qed

lemma sim_loop_value_Suc:
  "st_value (sim_loop g iv s b c (Suc n) sy) =
     js_mul (st_value (sim_loop g iv s b c n sy))
            (js_add (num 1) (js_div (portfolioReturn g s b c (sy + int n)) (num 100)))"
  by (simp add: sim_loop_Suc sim_step_def Let_def sim_loop_global del: num_1 num_100)

lemma sim_loop_values_Suc:
  "values' (st_results (sim_loop g iv s b c (Suc n) sy)) =
     values' (st_results (sim_loop g iv s b c n sy)) @ [st_value (sim_loop g iv s b c (Suc n) sy)]"
  by (simp add: sim_loop_Suc sim_step_def Let_def)

lemma simulate_values:
  "values' (fst (simulatePortfolio P g iv s b c n sy)) = values' (st_results (sim_loop g iv s b c n sy))"
  by (simp add: simulatePortfolio_def Let_def)

lemma simulate_years:
  "years (fst (simulatePortfolio P g iv s b c n sy)) = map (\<lambda>i. sy + int i) [0..<n]"
  by (simp add: simulatePortfolio_def Let_def sim_loop_years)

lemma simulate_finalValue:
  "finalValue (fst (simulatePortfolio P g iv s b c n sy)) = st_value (sim_loop g iv s b c n sy)"
  by (simp add: simulatePortfolio_def Let_def)

lemma stocks_2014: "yearReturn (stocks (historicalReturns portfolioCalc)) 2014 = num 13.7"
  by (simp add: yearReturn_def portfolioCalc_def stocks_table_def)

lemma stocks_2015: "yearReturn (stocks (historicalReturns portfolioCalc)) 2015 = num 1.4"
  by (simp add: yearReturn_def portfolioCalc_def stocks_table_def)

lemma stocks_2016: "yearReturn (stocks (historicalReturns portfolioCalc)) 2016 = num 12"
  by (simp add: yearReturn_def portfolioCalc_def stocks_table_def)

lemma scenario_run:
  "years (fst (simulatePortfolio P portfolioCalc (Fin 1000000) (Fin 100) (Fin 0) (Fin 0) 3 2014)) = [2014, 2015, 2016] \<and>
   returns (fst (simulatePortfolio P portfolioCalc (Fin 1000000) (Fin 100) (Fin 0) (Fin 0) 3 2014)) = [num 13.7, num 1.4, num 12] \<and>
   values' (fst (simulatePortfolio P portfolioCalc (Fin 1000000) (Fin 100) (Fin 0) (Fin 0) 3 2014)) = [Fin 1137000, Fin 1152918, Fin (346622157347881 / 2 ^ 28)] \<and>
   finalValue (fst (simulatePortfolio P portfolioCalc (Fin 1000000) (Fin 100) (Fin 0) (Fin 0) 3 2014)) = Fin (346622157347881 / 2 ^ 28) \<and>
   totalReturn (fst (simulatePortfolio P portfolioCalc (Fin 1000000) (Fin 100) (Fin 0) (Fin 0) 3 2014)) = Fin (8198469855255567 / 2 ^ 48)"
proof -
  define s2014 :: real where "s2014 = 3856207180935987 / 2 ^ 48"
  define q2014 :: real where "q2014 = 4935945191598063 / 2 ^ 55"
  define g2014 :: real where "g2014 = 2560296388160127 / 2 ^ 51"
  define v2014 :: real where "v2014 = 1137000"
  define s2015 :: real where "s2015 = 3152519739159347 / 2 ^ 51"
  define q2015 :: real where "q2015 = 1008806316530991 / 2 ^ 56"
  define g2015 :: real where "g2015 = 4566650022153683 / 2 ^ 52"
  define v2015 :: real where "v2015 = 1152918"
  define s2016 :: real where "s2016 = 12"
  define q2016 :: real where "q2016 = 1080863910568919 / 2 ^ 53"
  define g2016 :: real where "g2016 = 1261007895663739 / 2 ^ 50"
  define v2016 :: real where "v2016 = 346622157347881 / 2 ^ 28"
  define df :: real where "df = 78186701347881 / 2 ^ 28"
  define qt :: real where "qt = 5247020707363563 / 2 ^ 54"
  define tr :: real where "tr = 8198469855255567 / 2 ^ 48"
  define L where
    "L k = sim_loop portfolioCalc (Fin 1000000) (Fin 100) (Fin 0) (Fin 0) k 2014" for k
  have step: "st_value (L (Suc k)) =
      js_mul (st_value (L k))
        (js_add (num 1)
           (js_div (portfolioReturn portfolioCalc (Fin 100) (Fin 0) (Fin 0) (2014 + int k)) (num 100)))"
    for k unfolding L_def by (rule sim_loop_value_Suc)
  have vstep: "values' (st_results (L (Suc k))) = values' (st_results (L k)) @ [st_value (L (Suc k))]"
    for k unfolding L_def by (rule sim_loop_values_Suc)
  have w2013: "st_value (L 0) = Fin 1000000" by (simp add: L_def sim_loop_0 sim_init_def)
  have v0: "values' (st_results (L 0)) = []" by (simp add: L_def sim_loop_0 sim_init_def)
  have l2014: "num 13.7 = Fin s2014" unfolding num_def s2014_def
    by (subst round64_normal[where e="3"]) (simp_all add: pow2_def rne_def Let_def)
  have d2014: "round64 s2014 = Fin s2014" unfolding s2014_def
    by (subst round64_normal[where e="3"]) (simp_all add: pow2_def rne_def Let_def)
  have n2014: "s2014 \<noteq> 0" unfolding s2014_def by simp
  have r2014: "portfolioReturn portfolioCalc (Fin 100) (Fin 0) (Fin 0) 2014 = Fin s2014"
    using stocks_2014 l2014 n2014 d2014 by (intro all_in_stocks) simp_all
  have a2014: "js_div (Fin s2014) (Fin 100) = Fin q2014" unfolding s2014_def q2014_def
    by (simp add: js_div_def, subst round64_normal[where e="-3"]) (simp_all add: pow2_def rne_def Let_def)
  have b2014: "js_add (Fin 1) (Fin q2014) = Fin g2014" unfolding q2014_def g2014_def
    by (simp add: js_add_def, subst round64_normal[where e="0"]) (simp_all add: pow2_def rne_def Let_def)
  have c2014: "js_mul (Fin 1000000) (Fin g2014) = Fin v2014" unfolding g2014_def v2014_def
    by (simp add: js_mul_def, subst round64_normal[where e="20"]) (simp_all add: pow2_def rne_def Let_def)
  have w2014: "st_value (L (Suc 0)) = Fin v2014"
    by (subst step) (simp add: w2013 r2014 a2014 b2014 c2014)
  have l2015: "num 1.4 = Fin s2015" unfolding num_def s2015_def
    by (subst round64_normal[where e="0"]) (simp_all add: pow2_def rne_def Let_def)
  have d2015: "round64 s2015 = Fin s2015" unfolding s2015_def
    by (subst round64_normal[where e="0"]) (simp_all add: pow2_def rne_def Let_def)
  have n2015: "s2015 \<noteq> 0" unfolding s2015_def by simp
  have r2015: "portfolioReturn portfolioCalc (Fin 100) (Fin 0) (Fin 0) 2015 = Fin s2015"
    using stocks_2015 l2015 n2015 d2015 by (intro all_in_stocks) simp_all
  have a2015: "js_div (Fin s2015) (Fin 100) = Fin q2015" unfolding s2015_def q2015_def
    by (simp add: js_div_def, subst round64_normal[where e="-7"]) (simp_all add: pow2_def rne_def Let_def)
  have b2015: "js_add (Fin 1) (Fin q2015) = Fin g2015" unfolding q2015_def g2015_def
    by (simp add: js_add_def, subst round64_normal[where e="0"]) (simp_all add: pow2_def rne_def Let_def)
  have c2015: "js_mul (Fin v2014) (Fin g2015) = Fin v2015" unfolding v2014_def g2015_def v2015_def
    by (simp add: js_mul_def, subst round64_normal[where e="20"]) (simp_all add: pow2_def rne_def Let_def)
  have w2015: "st_value (L (Suc (Suc 0))) = Fin v2015"
    by (subst step) (simp add: w2014 r2015 a2015 b2015 c2015)
  have l2016: "num 12 = Fin s2016" unfolding num_def s2016_def
    by (subst round64_normal[where e="3"]) (simp_all add: pow2_def rne_def Let_def)
  have d2016: "round64 s2016 = Fin s2016" unfolding s2016_def
    by (subst round64_normal[where e="3"]) (simp_all add: pow2_def rne_def Let_def)
  have n2016: "s2016 \<noteq> 0" unfolding s2016_def by simp
  have r2016: "portfolioReturn portfolioCalc (Fin 100) (Fin 0) (Fin 0) 2016 = Fin s2016"
    using stocks_2016 l2016 n2016 d2016 by (intro all_in_stocks) simp_all
  have a2016: "js_div (Fin s2016) (Fin 100) = Fin q2016" unfolding s2016_def q2016_def
    by (simp add: js_div_def, subst round64_normal[where e="-4"]) (simp_all add: pow2_def rne_def Let_def)
  have b2016: "js_add (Fin 1) (Fin q2016) = Fin g2016" unfolding q2016_def g2016_def
    by (simp add: js_add_def, subst round64_normal[where e="0"]) (simp_all add: pow2_def rne_def Let_def)
  have c2016: "js_mul (Fin v2015) (Fin g2016) = Fin v2016" unfolding v2015_def g2016_def v2016_def
    by (simp add: js_mul_def, subst round64_normal[where e="20"]) (simp_all add: pow2_def rne_def Let_def)
  have w2016: "st_value (L (Suc (Suc (Suc 0)))) = Fin v2016"
    by (subst step) (simp add: w2015 r2016 a2016 b2016 c2016)
  have t1: "js_sub (Fin v2016) (Fin 1000000) = Fin df" unfolding v2016_def df_def
    by (simp add: js_sub_def js_add_def, subst round64_normal[where e="18"]) (simp_all add: pow2_def rne_def Let_def)
  have t2: "js_div (Fin df) (Fin 1000000) = Fin qt" unfolding df_def qt_def
    by (simp add: js_div_def, subst round64_normal[where e="-2"]) (simp_all add: pow2_def rne_def Let_def)
  have t3: "js_mul (Fin qt) (Fin 100) = Fin tr" unfolding qt_def tr_def
    by (simp add: js_mul_def, subst round64_normal[where e="4"]) (simp_all add: pow2_def rne_def Let_def)
  have three: "(3::nat) = Suc (Suc (Suc 0))" by simp
  have ys: "years (fst (simulatePortfolio P portfolioCalc (Fin 1000000) (Fin 100) (Fin 0) (Fin 0) 3 2014)) = [2014, 2015, 2016]"
    unfolding simulate_years three by simp
  have rs: "returns (fst (simulatePortfolio P portfolioCalc (Fin 1000000) (Fin 100) (Fin 0) (Fin 0) 3 2014)) = [Fin s2014, Fin s2015, Fin s2016]"
    unfolding simulate_returns three by (simp add: r2014 r2015 r2016)
  have vs: "values' (fst (simulatePortfolio P portfolioCalc (Fin 1000000) (Fin 100) (Fin 0) (Fin 0) 3 2014)) = [Fin v2014, Fin v2015, Fin v2016]"
    unfolding simulate_values three L_def[symmetric]
    by (simp only: vstep v0 w2014 w2015 w2016 append_Nil append_Cons)
  have fv: "finalValue (fst (simulatePortfolio P portfolioCalc (Fin 1000000) (Fin 100) (Fin 0) (Fin 0) 3 2014)) = Fin v2016"
    unfolding simulate_finalValue three L_def[symmetric] by (rule w2016)
  have tt: "totalReturn (fst (simulatePortfolio P portfolioCalc (Fin 1000000) (Fin 100) (Fin 0) (Fin 0) 3 2014)) = Fin tr"
    unfolding simulate_totalReturn three L_def[symmetric] by (simp add: w2016 t1 t2 t3)
  show ?thesis
    unfolding ys rs vs fv tt l2014 l2015 l2016
    by (simp add: v2014_def v2015_def v2016_def tr_def)
qed

section \<open>The claims\<close>

text \<open>
  In the statements \<open>P\<close> is the function the engine computes in the implementation-approximated
  case of \<^verbatim>\<open>Math.pow\<close>: a statement with \<open>P\<close> free holds on every engine. The closed
  statements name \<open>cr_pow\<close>, the correctly rounded power, and use it only where the power
  is itself a binary64 value or is not computed at all.
\<close>

text \<open>
  C1, as the code has it. \<^verbatim>\<open>simulatePortfolio(1000000, 100, 0, 0, 3, 2014)\<close> covers the
  years 2014 to 2016, its returns are the binary64 values of \<open>13.7\<close>, \<open>1.4\<close> and \<open>12\<close>,
  its values are \<open>1137000\<close>, \<open>1152918\<close> and \<open>1291268.1600000001\<close> (within \<open>10^-9\<close> of
  \<open>1291268.16\<close>), and its total return is \<open>29.126816000000016\<close> (within \<open>10^-12\<close> of
  \<open>29.126816\<close>), that is about \<open>29.13\<close> percent.
\<close>

theorem scenario_2014_three_years:
  "years (fst (simulatePortfolio P portfolioCalc (Fin 1000000) (Fin 100) (Fin 0) (Fin 0) 3 2014)) = [2014, 2015, 2016] \<and>
   returns (fst (simulatePortfolio P portfolioCalc (Fin 1000000) (Fin 100) (Fin 0) (Fin 0) 3 2014)) = [num 13.7, num 1.4, num 12] \<and>
   values' (fst (simulatePortfolio P portfolioCalc (Fin 1000000) (Fin 100) (Fin 0) (Fin 0) 3 2014)) = [Fin 1137000, Fin 1152918, Fin (346622157347881 / 2 ^ 28)] \<and>
   \<bar>346622157347881 / 2 ^ 28 - 1291268.16\<bar> < (1 / 10 ^ 9 :: real) \<and>
   finalValue (fst (simulatePortfolio P portfolioCalc (Fin 1000000) (Fin 100) (Fin 0) (Fin 0) 3 2014)) = Fin (346622157347881 / 2 ^ 28) \<and>
   totalReturn (fst (simulatePortfolio P portfolioCalc (Fin 1000000) (Fin 100) (Fin 0) (Fin 0) 3 2014)) = Fin (8198469855255567 / 2 ^ 48) \<and>
   \<bar>8198469855255567 / 2 ^ 48 - 29.126816\<bar> < (1 / 10 ^ 12 :: real)"
  using scenario_run by simp

text \<open>
  C1 as stated fails: the second value of the run is not within \<open>1\<close> of \<open>1153018\<close> (it is
  \<open>1152918\<close>, less by \<open>100\<close>), the third is not within \<open>1\<close> of \<open>1291380.16\<close>, and the
  total return is not within \<open>0.01\<close> of \<open>29.14\<close>.
\<close>

theorem scenario_values_counterexample:
  "\<forall>approx.
   \<not> \<bar>rv (values' (fst (simulatePortfolio approx portfolioCalc (Fin 1000000) (Fin 100) (Fin 0) (Fin 0) 3 2014)) ! 1) - 1153018\<bar> \<le> 1 \<and>
   \<not> \<bar>rv (values' (fst (simulatePortfolio approx portfolioCalc (Fin 1000000) (Fin 100) (Fin 0) (Fin 0) 3 2014)) ! 2) - 1291380.16\<bar> \<le> 1 \<and>
   \<not> \<bar>rv (totalReturn (fst (simulatePortfolio approx portfolioCalc (Fin 1000000) (Fin 100) (Fin 0) (Fin 0) 3 2014))) - 29.14\<bar> \<le> 1 / 100"
  using scenario_run by simp

text \<open>
  C2. With an initial value of zero the field \<open>totalReturn\<close> of the result is NaN, the
  value of \<open>0 / 0\<close>, for every allocation, number of years and start year: the assignment
  to \<open>totalReturn\<close> divides by the initial value unguarded, whereas the assignment to
  \<open>cagr\<close> that follows it tests the initial value first and yields \<open>0\<close>.
\<close>

theorem zero_initial_totalReturn_nan:
  "totalReturn (fst (simulatePortfolio P g (Fin 0) s b c n sy)) = NaN \<and>
   totalReturn (fst (simulatePortfolio P g NZero s b c n sy)) = NaN \<and>
   cagr (fst (simulatePortfolio P g (Fin 0) s b c n sy)) = Fin 0 \<and>
   cagr (fst (simulatePortfolio P g NZero s b c n sy)) = Fin 0"
proof -
  have "totalReturn (fst (simulatePortfolio P g iv s b c n sy)) = NaN" if z: "is_zero iv" for iv
    unfolding simulate_totalReturn using z zero_initial_invariant[OF z, of g s b c n sy]
    by (intro totalReturn_zero) simp_all
  moreover have "cagr (fst (simulatePortfolio P g iv s b c n sy)) = Fin 0" if z: "is_zero iv" for iv
    using z by (cases iv) (simp_all add: simulatePortfolio_def Let_def js_gt_def)
  ultimately show ?thesis by simp
qed

text \<open>
  C3. With a start year beyond 2024, the last tabulated year, every yearly lookup yields the
  2024 entry of the asset: 25 for stocks, the binary64 value of 1.2 for bonds, 120 for
  bitcoin, none of them zero. Every yearly return of the run is the sum of the three
  percentages, each divided by 100, times these three entries.
\<close>

theorem beyond_table_uses_2024:
  assumes "2024 < sy"
  shows "(\<forall>i. yearReturn (stocks (historicalReturns portfolioCalc)) (sy + int i) = Fin 25 \<and>
              yearReturn (bonds (historicalReturns portfolioCalc)) (sy + int i) =
                Fin (5404319552844595 / 2 ^ 52) \<and>
              yearReturn (bitcoin (historicalReturns portfolioCalc)) (sy + int i) = Fin 120) \<and>
         stocks (historicalReturns portfolioCalc) 2024 = Some (Fin 25) \<and>
         bonds (historicalReturns portfolioCalc) 2024 = Some (Fin (5404319552844595 / 2 ^ 52)) \<and>
         bitcoin (historicalReturns portfolioCalc) 2024 = Some (Fin 120) \<and>
         years (fst (simulatePortfolio P portfolioCalc iv s b c n sy)) =
           map (\<lambda>i. sy + int i) [0..<n] \<and>
         returns (fst (simulatePortfolio P portfolioCalc iv s b c n sy)) =
           replicate n
             (js_add
                (js_add (js_mul (js_div s (Fin 100)) (Fin 25))
                        (js_mul (js_div b (Fin 100)) (Fin (5404319552844595 / 2 ^ 52))))
                (js_mul (js_div c (Fin 100)) (Fin 120)))"
proof -
  have a: "\<And>i. 2024 < sy + int i" using assms by simp
  have r: "portfolioReturn portfolioCalc s b c (sy + int i) =
           js_add
             (js_add (js_mul (js_div s (Fin 100)) (Fin 25))
                     (js_mul (js_div b (Fin 100)) (Fin (5404319552844595 / 2 ^ 52))))
             (js_mul (js_div c (Fin 100)) (Fin 120))" for i
    using a[of i]
    by (simp add: portfolioReturn_def Let_def beyond_stocks beyond_bonds beyond_bitcoin
          num_25 num_1_2 num_120)
  have "stocks (historicalReturns portfolioCalc) 2024 = Some (Fin 25)"
    by (simp add: portfolioCalc_def stocks_table_def num_25)
  moreover have "bonds (historicalReturns portfolioCalc) 2024 = Some (Fin (5404319552844595 / 2 ^ 52))"
    by (simp add: portfolioCalc_def bonds_table_def num_1_2)
  moreover have "bitcoin (historicalReturns portfolioCalc) 2024 = Some (Fin 120)"
    by (simp add: portfolioCalc_def bitcoin_table_def num_120)
  ultimately show ?thesis
    using a
    by (simp add: simulate_returns simulate_years r map_replicate_const
          beyond_stocks beyond_bonds beyond_bitcoin num_25 num_1_2 num_120)
qed

theorem beyond_table_uses_2024_witness:
  "(2024::int) < 2030 \<and>
   yearReturn (stocks (historicalReturns portfolioCalc)) 2030 = Fin 25 \<and>
   yearReturn (bonds (historicalReturns portfolioCalc)) 2030 = Fin (5404319552844595 / 2 ^ 52) \<and>
   yearReturn (bitcoin (historicalReturns portfolioCalc)) 2030 = Fin 120 \<and>
   years (fst (simulatePortfolio cr_pow portfolioCalc (Fin 1000) (Fin 60) (Fin 40) (Fin 0) 1 2030)) =
     [2030] \<and>
   returns (fst (simulatePortfolio cr_pow portfolioCalc (Fin 1000) (Fin 60) (Fin 40) (Fin 0) 1 2030)) =
     [Fin (4357232639480955 / 2 ^ 48)] \<and>
   \<bar>4357232639480955 / 2 ^ 48 - 15.48\<bar> < (1 / 10 ^ 12 :: real)"
proof -
  define x6 :: real where "x6 = 5404319552844595 / 2 ^ 53"
  define x4 :: real where "x4 = 3602879701896397 / 2 ^ 53"
  define x12 :: real where "x12 = 5404319552844595 / 2 ^ 52"
  define x48 :: real where "x48 = 1080863910568919 / 2 ^ 51"
  define r :: real where "r = 4357232639480955 / 2 ^ 48"
  have h: "(2024::int) < 2030" by simp
  have a1: "js_div (Fin 60) (Fin 100) = Fin x6" unfolding x6_def
    by (simp add: js_div_def, subst round64_normal[where e="-1"]) (simp_all add: pow2_def rne_def Let_def)
  have a2: "js_mul (Fin x6) (Fin 25) = Fin 15" unfolding x6_def
    by (simp add: js_mul_def, subst round64_normal[where e="3"]) (simp_all add: pow2_def rne_def Let_def)
  have a3: "js_div (Fin 40) (Fin 100) = Fin x4" unfolding x4_def
    by (simp add: js_div_def, subst round64_normal[where e="-2"]) (simp_all add: pow2_def rne_def Let_def)
  have a4: "js_mul (Fin x4) (Fin x12) = Fin x48" unfolding x4_def x12_def x48_def
    by (simp add: js_mul_def, subst round64_normal[where e="-2"]) (simp_all add: pow2_def rne_def Let_def)
  have a5: "js_add (Fin 15) (Fin x48) = Fin r" unfolding x48_def r_def
    by (simp add: js_add_def, subst round64_normal[where e="3"]) (simp_all add: pow2_def rne_def Let_def)
  have a6: "js_mul (js_div (Fin 0) (Fin 100)) (Fin 120) = Fin 0"
    by (simp add: js_div_def js_mul_def mk_zero_def)
  have a7: "js_add (Fin r) (Fin 0) = Fin r" unfolding r_def
    by (simp add: js_add_def, subst round64_normal[where e="3"]) (simp_all add: pow2_def rne_def Let_def)
  have w: "js_add
             (js_add (js_mul (js_div (Fin 60) (Fin 100)) (Fin 25))
                     (js_mul (js_div (Fin 40) (Fin 100)) (Fin x12)))
             (js_mul (js_div (Fin 0) (Fin 100)) (Fin 120)) = Fin r"
    by (simp only: a1 a2 a3 a4 a5 a6 a7)
  note t = beyond_table_uses_2024[OF h, where P = cr_pow and iv = "Fin 1000" and s = "Fin 60"
      and b = "Fin 40" and c = "Fin 0" and n = 1]
  from t have l: "yearReturn (stocks (historicalReturns portfolioCalc)) (2030 + int 0) = Fin 25 \<and>
              yearReturn (bonds (historicalReturns portfolioCalc)) (2030 + int 0) =
                Fin (5404319552844595 / 2 ^ 52) \<and>
              yearReturn (bitcoin (historicalReturns portfolioCalc)) (2030 + int 0) = Fin 120"
    by blast
  from t have y: "years (fst (simulatePortfolio cr_pow portfolioCalc (Fin 1000) (Fin 60) (Fin 40) (Fin 0) 1 2030)) =
      map (\<lambda>i. 2030 + int i) [0..<1]" by blast
  from t have "returns (fst (simulatePortfolio cr_pow portfolioCalc (Fin 1000) (Fin 60) (Fin 40) (Fin 0) 1 2030)) =
      replicate 1
             (js_add
                (js_add (js_mul (js_div (Fin 60) (Fin 100)) (Fin 25))
                        (js_mul (js_div (Fin 40) (Fin 100)) (Fin (5404319552844595 / 2 ^ 52))))
                (js_mul (js_div (Fin 0) (Fin 100)) (Fin 120)))" by blast
  then have "returns (fst (simulatePortfolio cr_pow portfolioCalc (Fin 1000) (Fin 60) (Fin 40) (Fin 0) 1 2030)) =
      [Fin r]" unfolding x12_def[symmetric] w by simp
  then show ?thesis using l y h by (simp add: r_def)
qed

text \<open>
  C4. With \<open>years = 0\<close> the simulation returns empty sequences of years, values and
  returns, a final value equal to the initial value, and \<open>cagr\<close>, \<open>volatility\<close>,
  \<open>maxDrawdown\<close> and \<open>sharpe\<close> all zero, for every initial value, allocation and start
  year. The model returns a result on every input: no operation of the source can throw.
\<close>

theorem zero_years_empty_result:
  "years (fst (simulatePortfolio P g iv s b c 0 sy)) = [] \<and>
   values' (fst (simulatePortfolio P g iv s b c 0 sy)) = [] \<and>
   returns (fst (simulatePortfolio P g iv s b c 0 sy)) = [] \<and>
   finalValue (fst (simulatePortfolio P g iv s b c 0 sy)) = iv \<and>
   cagr (fst (simulatePortfolio P g iv s b c 0 sy)) = Fin 0 \<and>
   volatility (fst (simulatePortfolio P g iv s b c 0 sy)) = Fin 0 \<and>
   maxDrawdown (fst (simulatePortfolio P g iv s b c 0 sy)) = Fin 0 \<and>
   sharpe (fst (simulatePortfolio P g iv s b c 0 sy)) = Fin 0"
  by (simp add: simulatePortfolio_def Let_def sim_loop_0 sim_init_def calculateStdDev_def js_gt_def)

text \<open>
  C5. With an initial value of zero (\<open>+0\<close> or \<open>-0\<close>) the running peak stays zero, the
  drawdown computed in every iteration is the quotient \<open>0 / 0\<close>, that is NaN, which no
  comparison finds greater than the running maximum, and \<open>maxDrawdown\<close> is zero in the
  result, for every allocation, number of years and start year. Nothing fails: the
  division by zero yields a value.
\<close>

theorem zero_initial_maxDrawdown:
  assumes "is_zero iv"
  shows "maxDrawdown (fst (simulatePortfolio P g iv s b c n sy)) = Fin 0 \<and>
         (\<forall>k. is_zero (st_peak (sim_loop g iv s b c k sy)) \<and>
              drawdown (st_peak (sim_loop g iv s b c k sy)) (st_value (sim_loop g iv s b c k sy)) = NaN \<and>
              \<not> js_gt (drawdown (st_peak (sim_loop g iv s b c k sy)) (st_value (sim_loop g iv s b c k sy)))
                       (maxDrawdown (st_results (sim_loop g iv s b c k sy))))"
proof -
  have "\<And>k. drawdown (st_peak (sim_loop g iv s b c k sy)) (st_value (sim_loop g iv s b c k sy)) = NaN"
    using zero_initial_invariant[OF assms] by (intro drawdown_zero_peak) auto
  then show ?thesis using zero_initial_invariant[OF assms] by (simp add: simulate_maxDrawdown)
qed

theorem zero_initial_maxDrawdown_witness:
  "is_zero (Fin 0) \<and>
   maxDrawdown (fst (simulatePortfolio cr_pow portfolioCalc (Fin 0) (Fin 60) (Fin 40) (Fin 0) 3 2014)) = Fin 0"
  using zero_initial_maxDrawdown[where iv = "Fin 0" and P = cr_pow and g = portfolioCalc
      and s = "Fin 60" and b = "Fin 40" and c = "Fin 0" and n = 3 and sy = 2014]
  by simp

text \<open>
  C6. With the three percentages zero (\<open>+0\<close> or \<open>-0\<close>), every yearly return of the run
  is zero (it compares equal to \<open>0\<close>; in a year where the three tabulated returns are
  negative it is \<open>-0\<close>), and the final value is the initial value itself, for every
  number of years, start year and initial value.
\<close>

theorem zero_allocation_keeps_value:
  assumes "is_zero s" and "is_zero b" and "is_zero c" and "is_double iv"
  shows "length (returns (fst (simulatePortfolio P portfolioCalc iv s b c n sy))) = n \<and>
         list_all (\<lambda>r. js_eq r (num 0))
           (returns (fst (simulatePortfolio P portfolioCalc iv s b c n sy))) \<and>
         finalValue (fst (simulatePortfolio P portfolioCalc iv s b c n sy)) = iv"
proof -
  have "finalValue (fst (simulatePortfolio P portfolioCalc iv s b c n sy)) =
        st_value (sim_loop portfolioCalc iv s b c n sy)"
    by (simp add: simulatePortfolio_def Let_def)
  moreover have "list_all (\<lambda>r. js_eq r (num 0))
     (map (\<lambda>i. portfolioReturn portfolioCalc s b c (sy + int i)) [0..<n])"
    using zero_pct_return[OF assms(1-3)] by (simp add: list_all_iff js_eq_zero del: num_0)
  ultimately show ?thesis
    using zero_pct_value[OF assms] by (simp add: simulate_returns del: num_0)
qed

theorem zero_allocation_keeps_value_witness:
  "is_zero (Fin 0) \<and> is_double (Fin 1000000) \<and>
   length (returns (fst (simulatePortfolio cr_pow portfolioCalc (Fin 1000000) (Fin 0) (Fin 0) (Fin 0) 2 2022))) = 2 \<and>
   list_all (\<lambda>r. js_eq r (num 0))
     (returns (fst (simulatePortfolio cr_pow portfolioCalc (Fin 1000000) (Fin 0) (Fin 0) (Fin 0) 2 2022))) \<and>
   finalValue (fst (simulatePortfolio cr_pow portfolioCalc (Fin 1000000) (Fin 0) (Fin 0) (Fin 0) 2 2022))
     = Fin 1000000"
proof -
  have z: "is_zero (Fin 0)" by simp
  show ?thesis
    using zero_allocation_keeps_value[OF z z z double_1000000, where P = cr_pow and n = 2
        and sy = 2022] double_1000000
    by (simp del: num_0)
qed

text \<open>
  C7. \<^verbatim>\<open>calculateMaxDrawdown\<close> scans the values from left to right with a running peak.
  It returns exactly \<open>0\<close> on the empty sequence, on every sequence of one element (NaN
  and the infinities included) and on every sequence whose elements never decrease, and
  exactly \<open>50\<close> on \<open>[100, 50, 100]\<close>.
\<close>

theorem maxDrawdown_helper:
  "(nondecreasing vs \<longrightarrow> calculateMaxDrawdown vs = Fin 0) \<and>
   calculateMaxDrawdown [] = Fin 0 \<and>
   calculateMaxDrawdown [v] = Fin 0 \<and>
   calculateMaxDrawdown [Fin 100, Fin 50, Fin 100] = Fin 50"
proof -
  have a: "calculateMaxDrawdown xs = Fin 0" if "nondecreasing xs" for xs
  proof (cases xs)
    case Nil
    then show ?thesis by (simp add: calculateMaxDrawdown_def)
  next
    case (Cons x ys)
    have "fst (foldl drawdown_step (Fin 0, x) xs) = Fin 0"
      using that Cons by (intro drawdown_scan_zero) simp_all
    then show ?thesis using Cons by (simp add: calculateMaxDrawdown_def)
  qed
  have b: "calculateMaxDrawdown [Fin 100, Fin 50, Fin 100] = Fin 50"
    by (simp add: calculateMaxDrawdown_def drawdown_step_def Let_def js_gt_def
          drawdown_100_50 drawdown_100_100)
  show ?thesis using a[of vs] a[of "[]"] a[of "[v]"] b by simp
qed

theorem maxDrawdown_helper_witness:
  "nondecreasing [Fin 1, Fin 2, Fin 2, PInf] \<and> calculateMaxDrawdown [Fin 1, Fin 2, Fin 2, PInf] = Fin 0"
proof -
  have h: "nondecreasing [Fin 1, Fin 2, Fin 2, PInf]" by (simp add: js_le_def)
  show ?thesis using h maxDrawdown_helper[of "[Fin 1, Fin 2, Fin 2, PInf]"] by blast
qed

text \<open>
  C8, as the code has it. \<^verbatim>\<open>calculateStdDev\<close> returns \<open>0\<close> on the empty sequence. On a
  nonempty sequence of finite values it computes the population standard deviation, the
  divisor being the number \<open>N\<close> of elements, in binary64 arithmetic: whenever no operation
  of the computation rounds, the result is the population standard deviation of the
  elements. On a constant sequence of a finite value it returns exactly \<open>0\<close> whenever the
  mean it has computed equals the element, which holds for every sequence of one element.
  \<^verbatim>\<open>calculateVolatility\<close> returns the same value on every nonempty sequence.
\<close>

theorem stddev_helper:
  "calculateStdDev P [] = Fin 0 \<and>
   (xs \<noteq> [] \<and> no_rounding P xs \<longrightarrow> calculateStdDev P (map Fin xs) = Fin (population_sd xs)) \<and>
   (is_double c \<and> is_finite c \<longrightarrow> calculateStdDev P [c] = Fin 0) \<and>
   (0 < n \<and> is_finite c \<and>
      js_eq (js_div (foldl js_add (num 0) (replicate n c)) (num (real n))) c \<longrightarrow>
    calculateStdDev P (replicate n c) = Fin 0) \<and>
   (rs \<noteq> [] \<longrightarrow> calculateVolatility P rs = calculateStdDev P rs)"
proof -
  have f1: "calculateStdDev P [] = Fin 0" by (simp add: calculateStdDev_def)
  have f2: "calculateStdDev P [c] = Fin 0" if "is_double c" "is_finite c"
    using stddev_constant[of 1 c P] mean_single[OF that] that by simp
  show ?thesis
    using f1 f2 stddev_refines[of xs P] stddev_constant[of n c P] volatility_nonempty[of rs P]
    by blast
qed

theorem stddev_helper_witness:
  "[2, 4, 4, 4, 5, 5, 7, 9] \<noteq> ([] :: real list) \<and> no_rounding cr_pow [2, 4, 4, 4, 5, 5, 7, 9] \<and>
   population_sd [2, 4, 4, 4, 5, 5, 7, 9] = 2 \<and>
   calculateStdDev cr_pow [Fin 2, Fin 4, Fin 4, Fin 4, Fin 5, Fin 5, Fin 7, Fin 9] = Fin 2 \<and>
   is_double (Fin 5) \<and> is_finite (Fin 5) \<and> calculateStdDev cr_pow [Fin 5] = Fin 0 \<and>
   (0::nat) < 2 \<and> js_eq (js_div (foldl js_add (num 0) (replicate 2 (Fin 5))) (num (real 2))) (Fin 5) \<and>
   calculateStdDev cr_pow (replicate 2 (Fin 5)) = Fin 0 \<and>
   [Fin 5] \<noteq> [] \<and> calculateVolatility cr_pow [Fin 5] = calculateStdDev cr_pow [Fin 5]"
proof -
  have d: "is_double (Fin 5)" by (simp add: round64_5)
  have m: "js_eq (js_div (foldl js_add (num 0) (replicate 2 (Fin 5))) (num (real 2))) (Fin 5)"
    by (simp add: numeral_2_eq_2 js_add_def js_div_def round64_5 round64_10 js_eq_def js_le_def)
  note t = stddev_helper[where P = cr_pow and xs = "[2, 4, 4, 4, 5, 5, 7, 9]" and c = "Fin 5"
      and n = 2 and rs = "[Fin 5]"]
  have "calculateStdDev cr_pow (map Fin [2, 4, 4, 4, 5, 5, 7, 9]) = Fin (population_sd [2, 4, 4, 4, 5, 5, 7, 9])"
    using t example_no_rounding by blast
  then have e: "calculateStdDev cr_pow [Fin 2, Fin 4, Fin 4, Fin 4, Fin 5, Fin 5, Fin 7, Fin 9] = Fin 2"
    by (simp add: example_population_sd)
  show ?thesis
    using t d m e example_no_rounding example_population_sd by simp
qed

text \<open>
  C8 as stated fails: on the constant sequence \<open>[0.1, 0.1, 0.1]\<close> the sum rounds to
  \<open>0.30000000000000004\<close>, the mean to \<open>0.10000000000000002\<close>, and the result is \<open>2^-56\<close>,
  where the population standard deviation of the three equal numbers is \<open>0\<close>. The square
  of the deviation, \<open>2^-112\<close>, is a binary64 value, which the power returns as it is.
\<close>

theorem stddev_constant_counterexample:
  "calculateStdDev cr_pow [num 0.1, num 0.1, num 0.1] = Fin (1 / 2 ^ 56) \<and>
   \<not> is_zero (calculateStdDev cr_pow [num 0.1, num 0.1, num 0.1]) \<and>
   population_sd [0.1, 0.1, 0.1] = 0"
proof -
  define d :: real where "d = 3602879701896397 / 2 ^ 55"
  define t2 :: real where "t2 = 3602879701896397 / 2 ^ 54"
  define t3 :: real where "t3 = 1351079888211149 / 2 ^ 52"
  define m :: real where "m = 7205759403792795 / 2 ^ 56"
  define df :: real where "df = - (1 / 2 ^ 56)"
  define sq :: real where "sq = 1 / 2 ^ 112"
  define u2 :: real where "u2 = 1 / 2 ^ 111"
  define u3 :: real where "u3 = 3 / 2 ^ 112"
  define r :: real where "r = 1 / 2 ^ 56"
  have n: "num 0.1 = Fin d" using num_tenth by (simp add: d_def)
  have a1: "js_add (Fin 0) (Fin d) = Fin d" unfolding d_def
    by (simp add: js_add_def, subst round64_normal[where e="-4"]) (simp_all add: pow2_def rne_def Let_def)
  have a2: "js_add (Fin d) (Fin d) = Fin t2" unfolding d_def t2_def
    by (simp add: js_add_def, subst round64_normal[where e="-3"]) (simp_all add: pow2_def rne_def Let_def)
  have a3: "js_add (Fin t2) (Fin d) = Fin t3" unfolding d_def t2_def t3_def
    by (simp add: js_add_def, subst round64_normal[where e="-2"]) (simp_all add: pow2_def rne_def Let_def)
  have a4: "js_div (Fin t3) (Fin 3) = Fin m" unfolding t3_def m_def
    by (simp add: js_div_def, subst round64_normal[where e="-4"]) (simp_all add: pow2_def rne_def Let_def)
  have a5: "js_sub (Fin d) (Fin m) = Fin df" unfolding d_def m_def df_def
    by (simp add: js_sub_def js_add_def, subst round64_normal[where e="-56"])
       (simp_all add: pow2_def rne_def Let_def)
  have p: "\<bar>df\<bar> powr 2 = sq" unfolding df_def sq_def
    by (simp add: power_divide)
  have "js_pow cr_pow (Fin df) (Fin 2) = round64 (\<bar>df\<bar> powr 2)" unfolding df_def
    by (simp add: js_pow_def cr_pow_def)
  also have "\<dots> = Fin sq" unfolding p unfolding sq_def
    by (subst round64_normal[where e="-112"]) (simp_all add: pow2_def rne_def Let_def)
  finally have a6: "js_pow cr_pow (Fin df) (Fin 2) = Fin sq" .
  have a7: "js_add (Fin 0) (Fin sq) = Fin sq" unfolding sq_def
    by (simp add: js_add_def, subst round64_normal[where e="-112"]) (simp_all add: pow2_def rne_def Let_def)
  have a8: "js_add (Fin sq) (Fin sq) = Fin u2" unfolding sq_def u2_def
    by (simp add: js_add_def, subst round64_normal[where e="-111"]) (simp_all add: pow2_def rne_def Let_def)
  have a9: "js_add (Fin u2) (Fin sq) = Fin u3" unfolding sq_def u2_def u3_def
    by (simp add: js_add_def, subst round64_normal[where e="-111"]) (simp_all add: pow2_def rne_def Let_def)
  have a10: "js_div (Fin u3) (Fin 3) = Fin sq" unfolding sq_def u3_def
    by (simp add: js_div_def, subst round64_normal[where e="-112"]) (simp_all add: pow2_def rne_def Let_def)
  have s: "sqrt sq = r" unfolding sq_def r_def
    by (rule real_sqrt_unique) (simp_all add: power_divide)
  have "js_sqrt (Fin sq) = round64 (sqrt sq)" unfolding sq_def
    by (simp add: js_sqrt_def)
  also have "\<dots> = Fin r" unfolding s unfolding r_def
    by (subst round64_normal[where e="-56"]) (simp_all add: pow2_def rne_def Let_def)
  finally have a11: "js_sqrt (Fin sq) = Fin r" .
  have "calculateStdDev cr_pow [Fin d, Fin d, Fin d] = Fin r"
    by (simp add: calculateStdDev_def Let_def num_3 a1 a2 a3 a4 a5 a6 a7 a8 a9 a10 a11)
  moreover have "population_sd [0.1, 0.1, 0.1] = 0"
    by (simp add: population_sd_def Let_def)
  ultimately show ?thesis by (simp add: n r_def)
qed

text \<open>
  C9. The simulation is deterministic and has no side effect. Run in a global state \<open>g\<close>,
  it leaves \<open>g\<close> as it was; a second call with the same arguments, run in the state the
  first call left, returns the same result and state; and the result does not depend on
  the six fields of the calculator that the input handlers assign to.
\<close>

theorem simulate_pure:
  "snd (simulatePortfolio P g iv s b c n sy) = g \<and>
   simulatePortfolio P (snd (simulatePortfolio P g iv s b c n sy)) iv s b c n sy =
     simulatePortfolio P g iv s b c n sy \<and>
   fst (simulatePortfolio P
          (g\<lparr>portfolioSize := p, stockAllocation := a1, bondAllocation := a2,
             btcAllocation := a3, timeHorizon := t, startYear := y\<rparr>) iv s b c n sy) =
     fst (simulatePortfolio P g iv s b c n sy)"
proof -
  let ?g' = "g\<lparr>portfolioSize := p, stockAllocation := a1, bondAllocation := a2,
             btcAllocation := a3, timeHorizon := t, startYear := y\<rparr>"
  have "historicalReturns ?g' = historicalReturns g" by simp
  then have "fst (simulatePortfolio P ?g' iv s b c n sy) = fst (simulatePortfolio P g iv s b c n sy)"
    by (rule simulate_cong)
  then show ?thesis by (simp add: simulate_global)
qed

text \<open>
  C10. The sequence of yearly returns does not depend on the initial value: two runs that
  differ in the initial value only produce the same \<open>returns\<close>.
\<close>

theorem returns_independent_of_initialValue:
  "returns (fst (simulatePortfolio P g iv1 s b c n sy)) =
   returns (fst (simulatePortfolio P g iv2 s b c n sy))"
  by (simp add: simulate_returns)

end
